theory Spec2Isabelle
  imports Main "HOL-Library.AList" "HOL-Library.Char_ord" "HOL-Library.List_Lexorder"
begin

section \<open>Python values, dictionaries and exceptions\<close>

text \<open>
  The query compiler of \<^verbatim>\<open>datadog_checks/base/utils/db/query.py\<close> and the transformer
  factories of \<^verbatim>\<open>transform.py\<close> work on configuration data: \<^verbatim>\<open>None\<close>, booleans,
  integers, floats, strings, lists and mappings with string keys. A mapping is an association
  list in insertion order with \<open>map_of\<close> as lookup; \<open>AList.update\<close> is Python's item
  assignment (an existing key keeps its place, a new key goes last). A float is a mantissa
  and a binary exponent; only its type and its truth value are ever inspected.
\<close>

datatype pyval =
    PNone
  | PBool bool
  | PInt int
  | PFloat int int
  | PStr string
  | PList "pyval list"
  | PDict "(string \<times> pyval) list"

type_synonym pydict = "(string \<times> pyval) list"

text \<open>Python's truth value of an object (\<^verbatim>\<open>not x\<close> is its negation).\<close>

fun truthy :: "pyval \<Rightarrow> bool" where
  "truthy PNone = False"
| "truthy (PBool b) = b"
| "truthy (PInt i) = (i \<noteq> 0)"
| "truthy (PFloat m e) = (m \<noteq> 0)"
| "truthy (PStr s) = (s \<noteq> [])"
| "truthy (PList xs) = (xs \<noteq> [])"
| "truthy (PDict d) = (d \<noteq> [])"

text \<open>\<^verbatim>\<open>isinstance(x, str)\<close>, \<^verbatim>\<open>isinstance(x, dict)\<close>, \<^verbatim>\<open>isinstance(x, list)\<close>, each with
  the payload it guards.\<close>

fun as_str :: "pyval \<Rightarrow> string option" where
  "as_str (PStr s) = Some s"
| "as_str _ = None"

fun as_dict :: "pyval \<Rightarrow> pydict option" where
  "as_dict (PDict d) = Some d"
| "as_dict _ = None"

fun as_list :: "pyval \<Rightarrow> pyval list option" where
  "as_list (PList xs) = Some xs"
| "as_list _ = None"

text \<open>\<^verbatim>\<open>d.get(k)\<close> and \<^verbatim>\<open>d.get(k, default)\<close>.\<close>

definition py_get_default :: "pydict \<Rightarrow> string \<Rightarrow> pyval \<Rightarrow> pyval" where
  "py_get_default d k dflt = (case map_of d k of None \<Rightarrow> dflt | Some v \<Rightarrow> v)"

definition py_get :: "pydict \<Rightarrow> string \<Rightarrow> pyval" where
  "py_get d k = py_get_default d k PNone"

text \<open>\<^verbatim>\<open>{key: value for key, value in d.items() if key not in ks}\<close>.\<close>

definition without_keys :: "string list \<Rightarrow> pydict \<Rightarrow> pydict" where
  "without_keys ks d = filter (\<lambda>kv. fst kv \<notin> set ks) d"

fun py_type_name :: "pyval \<Rightarrow> string" where
  "py_type_name PNone = ''NoneType''"
| "py_type_name (PBool b) = ''bool''"
| "py_type_name (PInt i) = ''int''"
| "py_type_name (PFloat m e) = ''float''"
| "py_type_name (PStr s) = ''str''"
| "py_type_name (PList xs) = ''list''"
| "py_type_name (PDict d) = ''dict''"

text \<open>
  An exception is its class and the single argument it was built with. \<open>exn_str\<close> is
  \<^verbatim>\<open>str(e)\<close>: the argument itself, except for a \<^verbatim>\<open>KeyError\<close>, which prints the
  \<^verbatim>\<open>repr\<close> of its argument. \<open>py_repr\<close> is \<^verbatim>\<open>repr\<close> on a string of printable
  characters and ASCII control characters.
\<close>

datatype exn_class = ValueError | KeyError | TypeError | AttributeError | OtherError string

datatype exn = Exn exn_class string

fun exn_class_of :: "exn \<Rightarrow> exn_class" where
  "exn_class_of (Exn c a) = c"

fun exn_arg :: "exn \<Rightarrow> string" where
  "exn_arg (Exn c a) = a"

definition hex_digit :: "nat \<Rightarrow> char" where
  "hex_digit d = (''0123456789abcdef'' ! (d mod 16))"

definition repr_char :: "char \<Rightarrow> char \<Rightarrow> string" where
  "repr_char quote c =
     (if c = quote \<or> c = CHR 0x5C then [CHR 0x5C, c]
      else if c = CHR 0x09 then [CHR 0x5C, CHR ''t'']
      else if c = CHR 0x0A then [CHR 0x5C, CHR ''n'']
      else if c = CHR 0x0D then [CHR 0x5C, CHR ''r'']
      else if (of_char c :: nat) < 32 \<or> (of_char c :: nat) = 127
        then [CHR 0x5C, CHR ''x'', hex_digit (of_char c div 16), hex_digit (of_char c)]
      else [c])"

definition py_repr :: "string \<Rightarrow> string" where
  "py_repr s =
     (let quote = (if CHR 0x27 \<in> set s \<and> CHR 0x22 \<notin> set s then CHR 0x22 else CHR 0x27)
      in [quote] @ concat (map (repr_char quote) s) @ [quote])"

definition exn_str :: "exn \<Rightarrow> string" where
  "exn_str e = (if exn_class_of e = KeyError then py_repr (exn_arg e) else exn_arg e)"

text \<open>\<^verbatim>\<open>'{}'.format(i)\<close> for a non-negative integer: its decimal digits.\<close>

definition digit_char :: "nat \<Rightarrow> char" where
  "digit_char d = (''0123456789'' ! (d mod 10))"

fun str_of_nat :: "nat \<Rightarrow> string" where
  "str_of_nat n = (if n < 10 then [digit_char n] else str_of_nat (n div 10) @ [digit_char n])"

declare str_of_nat.simps [simp del]

section \<open>The query compiler\<close>

text \<open>
  \<^verbatim>\<open>class Query\<close>. An attribute that holds \<^verbatim>\<open>None\<close> is \<open>None\<close> here; \<open>tags\<close> holds a
  configuration value (\<open>PNone\<close> for \<^verbatim>\<open>None\<close>). \<open>query_data = None\<close> is the state after
  \<^verbatim>\<open>del self.query_data\<close>.

  A compiled column is \<^verbatim>\<open>(None, None)\<close> for an ignored column and
  \<^verbatim>\<open>(name, (kind, transformer))\<close> otherwise, where kind and transformer may each be
  \<^verbatim>\<open>None\<close>. A compiled extra is \<^verbatim>\<open>(name, transformer)\<close>.
\<close>

type_synonym 't column_entry = "string option \<times> (string option \<times> 't option) option"

record 't Query =
  query_data :: "pyval option"
  name :: "string option"
  query :: "string option"
  columns :: "'t column_entry list option"
  extras :: "(string \<times> 't) list option"
  tags :: pyval

text \<open>\<^verbatim>\<open>Query.__init__\<close>: \<^verbatim>\<open>deepcopy(query_data or {})\<close> and five attributes set to
  \<^verbatim>\<open>None\<close>.\<close>

definition Query_init :: "pyval \<Rightarrow> 't Query" where
  "Query_init qd =
     \<lparr> query_data = Some (if truthy qd then qd else PDict []),
       name = None, query = None, columns = None, extras = None, tags = PNone \<rparr>"

text \<open>
  The Source Table \<^verbatim>\<open>sources\<close>: every defined name with
  \<^verbatim>\<open>{'type': kind, 'index': i}\<close>, in insertion order. \<open>sources_value\<close> is the same table
  as the configuration value handed to extra transformers as the modifier \<^verbatim>\<open>sources\<close>.
\<close>

type_synonym source_table = "(string \<times> (string \<times> nat)) list"

definition sources_value :: "source_table \<Rightarrow> pyval" where
  "sources_value sources =
     PDict (map (\<lambda>(n, kind, i). (n, PDict [(''type'', PStr kind), (''index'', PInt (int i))])) sources)"

text \<open>
  The two registries are dictionaries from type names to factory objects of some type
  \<open>'f\<close>. Calling a factory object, \<^verbatim>\<open>factory(name, transformers, **modifiers)\<close>, is the
  parameter \<open>call\<close>: it yields the transformer (of some type \<open>'t\<close>) or the exception
  the factory raises. \<^verbatim>\<open>create_extra_transformer\<close> of \<^verbatim>\<open>utils.py\<close> is the parameter
  \<open>cet\<close>.

  A factory gets its modifiers in a dictionary of its own (\<^verbatim>\<open>**modifiers\<close>), but the
  values are the objects of the entry, which is part of \<^verbatim>\<open>self.query_data\<close>: what a
  factory does to them (\<^verbatim>\<open>_compile_match_items\<close> pops keys of the item mappings it is
  given) stays in the stored configuration. The parameter \<open>effect\<close> gives, for a call,
  the values of the modifiers as the call leaves them, whether it returns or raises. A
  factory is taken to leave the registries and the Source Table as they are.
\<close>

type_synonym ('f, 't) factory_call = "'f \<Rightarrow> string \<Rightarrow> (string \<rightharpoonup> 'f) \<Rightarrow> pydict \<Rightarrow> exn + 't"

type_synonym 'f factory_effect = "'f \<Rightarrow> string \<Rightarrow> (string \<rightharpoonup> 'f) \<Rightarrow> pydict \<Rightarrow> pydict"

definition already_defined :: "string \<Rightarrow> string \<Rightarrow> string \<Rightarrow> nat \<Rightarrow> exn" where
  "already_defined nm query_name kind i =
     Exn ValueError (''the name '' @ nm @ '' of '' @ query_name @ '' was already defined in ''
                     @ kind @ '' #'' @ str_of_nat i)"

text \<open>One iteration of \<^verbatim>\<open>for i, column in enumerate(columns, 1)\<close>: the updated Source
  Table and the entry appended to \<^verbatim>\<open>column_data\<close>, or the exception raised.\<close>

definition compile_column ::
  "('f, 't) factory_call \<Rightarrow> string \<Rightarrow> (string \<rightharpoonup> 'f) \<Rightarrow> nat \<Rightarrow> source_table \<Rightarrow> pyval
     \<Rightarrow> exn + (source_table \<times> 't column_entry)" where
  "compile_column call query_name column_transformers i sources column =
     (if \<not> truthy column then Inr (sources, (None, None))
      else case as_dict column of
        None \<Rightarrow> Inl (Exn ValueError (''column #'' @ str_of_nat i @ '' of '' @ query_name
                                     @ '' is not a mapping''))
      | Some c \<Rightarrow>
          let column_name = py_get c ''name'' in
          if \<not> truthy column_name then
            Inl (Exn ValueError (''field `name` for column #'' @ str_of_nat i @ '' of ''
                                 @ query_name @ '' is required''))
          else case as_str column_name of
            None \<Rightarrow> Inl (Exn ValueError (''field `name` for column #'' @ str_of_nat i @ '' of ''
                                         @ query_name @ '' must be a string''))
          | Some cn \<Rightarrow>
              (case map_of sources cn of
                Some (kind, idx) \<Rightarrow> Inl (already_defined cn query_name kind idx)
              | None \<Rightarrow>
                  let sources' = AList.update cn (''column'', i) sources;
                      column_type = py_get c ''type'' in
                  if \<not> truthy column_type then
                    Inl (Exn ValueError (''field `type` for column '' @ cn @ '' of ''
                                         @ query_name @ '' is required''))
                  else case as_str column_type of
                    None \<Rightarrow> Inl (Exn ValueError (''field `type` for column '' @ cn @ '' of ''
                                                 @ query_name @ '' must be a string''))
                  | Some ct \<Rightarrow>
                      if ct = ''source'' then Inr (sources', (Some cn, Some (None, None)))
                      else case column_transformers ct of
                        None \<Rightarrow> Inl (Exn ValueError (''unknown type `'' @ ct @ ''` for column ''
                                                     @ cn @ '' of '' @ query_name))
                      | Some factory \<Rightarrow>
                          let modifiers = without_keys [''name'', ''type''] c in
                          (case call factory cn column_transformers modifiers of
                            Inl e \<Rightarrow>
                              Inl (Exn (exn_class_of e)
                                     (''error compiling type `'' @ ct @ ''` for column '' @ cn
                                      @ '' of '' @ query_name @ '': '' @ exn_str e))
                          | Inr transformer \<Rightarrow>
                              if ct = ''tag''
                              then Inr (sources', (Some cn, Some (Some ct, Some transformer)))
                              else Inr (sources', (Some cn, Some (None, Some transformer))))))"

fun compile_columns ::
  "('f, 't) factory_call \<Rightarrow> string \<Rightarrow> (string \<rightharpoonup> 'f) \<Rightarrow> nat \<Rightarrow> pyval list \<Rightarrow> source_table
     \<Rightarrow> 't column_entry list \<Rightarrow> exn + (source_table \<times> 't column_entry list)" where
  "compile_columns call query_name column_transformers i [] sources column_data =
     Inr (sources, column_data)"
| "compile_columns call query_name column_transformers i (column # rest) sources column_data =
     (case compile_column call query_name column_transformers i sources column of
        Inl e \<Rightarrow> Inl e
      | Inr (sources', entry) \<Rightarrow>
          compile_columns call query_name column_transformers (Suc i) rest sources'
            (column_data @ [entry]))"

text \<open>The type of an extra: the field \<^verbatim>\<open>type\<close>, \<^verbatim>\<open>'expression'\<close> when the field is
  falsy and the entry has an \<^verbatim>\<open>expression\<close> key, an error otherwise.\<close>

definition resolve_extra_type ::
  "string \<Rightarrow> (string \<rightharpoonup> 'f) \<Rightarrow> (string \<rightharpoonup> 'f) \<Rightarrow> string \<Rightarrow> pydict \<Rightarrow> exn + string" where
  "resolve_extra_type query_name extra_transformers submission_transformers extra_name extra =
     (let extra_type = py_get extra ''type'' in
      if \<not> truthy extra_type then
        (if map_of extra ''expression'' \<noteq> None then Inr ''expression''
         else Inl (Exn ValueError (''field `type` for extra '' @ extra_name @ '' of ''
                                   @ query_name @ '' is required'')))
      else case as_str extra_type of
        None \<Rightarrow> Inl (Exn ValueError (''field `type` for extra '' @ extra_name @ '' of ''
                                     @ query_name @ '' must be a string''))
      | Some ty \<Rightarrow>
          if extra_transformers ty = None \<and> submission_transformers ty = None
          then Inl (Exn ValueError (''unknown type `'' @ ty @ ''` for extra '' @ extra_name
                                    @ '' of '' @ query_name))
          else Inr ty)"

text \<open>One iteration of \<^verbatim>\<open>for i, extra in enumerate(extras, 1)\<close>. A factory that is
  \<^verbatim>\<open>None\<close> (the defaulted type \<^verbatim>\<open>'expression'\<close> in neither registry) fails when called,
  inside the \<^verbatim>\<open>try\<close>; \<^verbatim>\<open>create_extra_transformer\<close> runs in the \<^verbatim>\<open>else\<close> branch,
  outside it.\<close>

definition compile_extra ::
  "('f, 't) factory_call \<Rightarrow> ('t \<Rightarrow> pyval \<Rightarrow> exn + 't) \<Rightarrow> string \<Rightarrow> (string \<rightharpoonup> 'f)
     \<Rightarrow> (string \<rightharpoonup> 'f) \<Rightarrow> nat \<Rightarrow> source_table \<Rightarrow> pyval
     \<Rightarrow> exn + (source_table \<times> (string \<times> 't))" where
  "compile_extra call cet query_name extra_transformers submission_transformers i sources extra =
     (case as_dict extra of
        None \<Rightarrow> Inl (Exn ValueError (''extra #'' @ str_of_nat i @ '' of '' @ query_name
                                     @ '' is not a mapping''))
      | Some x \<Rightarrow>
          let extra_name = py_get x ''name'' in
          if \<not> truthy extra_name then
            Inl (Exn ValueError (''field `name` for extra #'' @ str_of_nat i @ '' of ''
                                 @ query_name @ '' is required''))
          else case as_str extra_name of
            None \<Rightarrow> Inl (Exn ValueError (''field `name` for extra #'' @ str_of_nat i @ '' of ''
                                         @ query_name @ '' must be a string''))
          | Some en \<Rightarrow>
              (case map_of sources en of
                Some (kind, idx) \<Rightarrow> Inl (already_defined en query_name kind idx)
              | None \<Rightarrow>
                  let sources' = AList.update en (''extra'', i) sources in
                  (case resolve_extra_type query_name extra_transformers
                          submission_transformers en x of
                    Inl e \<Rightarrow> Inl e
                  | Inr extra_type \<Rightarrow>
                      let transformer_factory =
                            (case extra_transformers extra_type of
                               Some f \<Rightarrow> Some f
                             | None \<Rightarrow> submission_transformers extra_type);
                          extra_source = py_get x ''source'' in
                      if submission_transformers extra_type \<noteq> None \<and> \<not> truthy extra_source then
                        Inl (Exn ValueError (''field `source` for extra '' @ en @ '' of ''
                                             @ query_name @ '' is required''))
                      else
                        let modifiers =
                              (if submission_transformers extra_type \<noteq> None
                               then without_keys [''name'', ''type'', ''source''] x
                               else AList.update ''sources'' (sources_value sources')
                                      (without_keys [''name'', ''type''] x)) in
                        (case (case transformer_factory of
                                 None \<Rightarrow> Inl (Exn TypeError (py_repr ''NoneType''
                                                               @ '' object is not callable''))
                               | Some f \<Rightarrow> call f en submission_transformers modifiers) of
                           Inl e \<Rightarrow>
                             Inl (Exn (exn_class_of e)
                                    (''error compiling type `'' @ extra_type @ ''` for extra ''
                                     @ en @ '' of '' @ query_name @ '': '' @ exn_str e))
                         | Inr transformer \<Rightarrow>
                             if submission_transformers extra_type \<noteq> None then
                               (case cet transformer extra_source of
                                  Inl e \<Rightarrow> Inl e
                                | Inr wrapped \<Rightarrow> Inr (sources', (en, wrapped)))
                             else Inr (sources', (en, transformer))))))"

fun compile_extras ::
  "('f, 't) factory_call \<Rightarrow> ('t \<Rightarrow> pyval \<Rightarrow> exn + 't) \<Rightarrow> string \<Rightarrow> (string \<rightharpoonup> 'f)
     \<Rightarrow> (string \<rightharpoonup> 'f) \<Rightarrow> nat \<Rightarrow> pyval list \<Rightarrow> source_table \<Rightarrow> (string \<times> 't) list
     \<Rightarrow> exn + (source_table \<times> (string \<times> 't) list)" where
  "compile_extras call cet query_name extra_transformers submission_transformers i []
     sources extra_data = Inr (sources, extra_data)"
| "compile_extras call cet query_name extra_transformers submission_transformers i (extra # rest)
     sources extra_data =
     (case compile_extra call cet query_name extra_transformers submission_transformers i
             sources extra of
        Inl e \<Rightarrow> Inl e
      | Inr (sources', entry) \<Rightarrow>
          compile_extras call cet query_name extra_transformers submission_transformers (Suc i)
            rest sources' (extra_data @ [entry]))"

subsection \<open>What the factories leave in the stored configuration\<close>

text \<open>
  \<open>write_back kept after entry\<close> is an entry of the configuration after a factory call:
  the keys in \<open>kept\<close> were not handed to the factory and keep their values, every other
  value is what the call left of it. \<open>replace_value\<close> puts a new value under a key that
  is there.
\<close>

definition write_back :: "string list \<Rightarrow> pydict \<Rightarrow> pydict \<Rightarrow> pydict" where
  "write_back kept after entry =
     map (\<lambda>kv. if fst kv \<in> set kept then kv
               else (fst kv, py_get_default after (fst kv) (snd kv))) entry"

definition replace_value :: "string \<Rightarrow> pyval \<Rightarrow> pydict \<Rightarrow> pydict" where
  "replace_value k v d = map (\<lambda>kv. if fst kv = k then (k, v) else kv) d"

text \<open>
  The factory call an iteration makes, if it makes one, is read off the iteration itself: run
  with a \<open>call\<close> that returns its own arguments, the iteration builds an entry that holds
  them exactly when it gets as far as calling the factory. For an extra, the adapter runs
  exactly for the submission types and marks them.
\<close>

definition column_factory_call ::
  "(string \<rightharpoonup> 'f) \<Rightarrow> source_table \<Rightarrow> pyval \<Rightarrow> ('f \<times> string \<times> pydict) option" where
  "column_factory_call column_transformers sources column =
     (case compile_column (\<lambda>f n r m. Inr (f, n, m)) [] column_transformers 0 sources column of
        Inr (_, (_, Some (_, Some c))) \<Rightarrow> Some c
      | _ \<Rightarrow> None)"

definition extra_factory_call ::
  "(string \<rightharpoonup> 'f) \<Rightarrow> (string \<rightharpoonup> 'f) \<Rightarrow> source_table \<Rightarrow> pyval
     \<Rightarrow> (('f \<times> string \<times> pydict) \<times> bool) option" where
  "extra_factory_call extra_transformers submission_transformers sources extra =
     (case compile_extra (\<lambda>f n r m. Inr ((f, n, m), False)) (\<lambda>t source. Inr (fst t, True)) []
             extra_transformers submission_transformers 0 sources extra of
        Inr (_, (_, c)) \<Rightarrow> Some c
      | Inl _ \<Rightarrow> None)"

text \<open>
  An entry of \<^verbatim>\<open>columns\<close> or \<^verbatim>\<open>extras\<close> as its iteration leaves it. The modifiers of a
  column are its items but \<^verbatim>\<open>name\<close> and \<^verbatim>\<open>type\<close>; those of an extra of a submission type
  leave out \<^verbatim>\<open>source\<close> too; for the other extras the Source Table takes the place of an
  item \<^verbatim>\<open>sources\<close>.
\<close>

definition stored_column ::
  "'f factory_effect \<Rightarrow> (string \<rightharpoonup> 'f) \<Rightarrow> source_table \<Rightarrow> pyval \<Rightarrow> pyval" where
  "stored_column effect column_transformers sources column =
     (case (column_factory_call column_transformers sources column, as_dict column) of
        (Some (f, n, m), Some c) \<Rightarrow>
          PDict (write_back [''name'', ''type''] (effect f n column_transformers m) c)
      | _ \<Rightarrow> column)"

definition stored_extra ::
  "'f factory_effect \<Rightarrow> (string \<rightharpoonup> 'f) \<Rightarrow> (string \<rightharpoonup> 'f) \<Rightarrow> source_table \<Rightarrow> pyval \<Rightarrow> pyval" where
  "stored_extra effect extra_transformers submission_transformers sources extra =
     (case (extra_factory_call extra_transformers submission_transformers sources extra,
            as_dict extra) of
        (Some ((f, n, m), submission), Some x) \<Rightarrow>
          PDict (write_back (if submission then [''name'', ''type'', ''source'']
                             else [''name'', ''type'', ''sources''])
                   (effect f n submission_transformers m) x)
      | _ \<Rightarrow> extra)"

text \<open>The two lists as the loops leave them: a loop stops at the iteration that raises.\<close>

fun stored_columns ::
  "('f, 't) factory_call \<Rightarrow> 'f factory_effect \<Rightarrow> string \<Rightarrow> (string \<rightharpoonup> 'f) \<Rightarrow> nat \<Rightarrow> pyval list
     \<Rightarrow> source_table \<Rightarrow> pyval list" where
  "stored_columns call effect query_name column_transformers i [] sources = []"
| "stored_columns call effect query_name column_transformers i (column # rest) sources =
     stored_column effect column_transformers sources column #
       (case compile_column call query_name column_transformers i sources column of
          Inl e \<Rightarrow> rest
        | Inr (sources', entry) \<Rightarrow>
            stored_columns call effect query_name column_transformers (Suc i) rest sources')"

fun stored_extras ::
  "('f, 't) factory_call \<Rightarrow> 'f factory_effect \<Rightarrow> ('t \<Rightarrow> pyval \<Rightarrow> exn + 't) \<Rightarrow> string
     \<Rightarrow> (string \<rightharpoonup> 'f) \<Rightarrow> (string \<rightharpoonup> 'f) \<Rightarrow> nat \<Rightarrow> pyval list \<Rightarrow> source_table \<Rightarrow> pyval list" where
  "stored_extras call effect cet query_name extra_transformers submission_transformers i []
     sources = []"
| "stored_extras call effect cet query_name extra_transformers submission_transformers i
     (extra # rest) sources =
     stored_extra effect extra_transformers submission_transformers sources extra #
       (case compile_extra call cet query_name extra_transformers submission_transformers i
               sources extra of
          Inl e \<Rightarrow> rest
        | Inr (sources', entry) \<Rightarrow>
            stored_extras call effect cet query_name extra_transformers submission_transformers
              (Suc i) rest sources')"

text \<open>
  The checks of \<^verbatim>\<open>name\<close>, \<^verbatim>\<open>query\<close>, \<^verbatim>\<open>columns\<close> and \<^verbatim>\<open>tags\<close> that come before the
  column loop: when all pass, the query name and the column list the loop runs on.
\<close>

definition loops_reached :: "pydict \<Rightarrow> (string \<times> pyval list) option" where
  "loops_reached d =
     (case (as_str (py_get d ''name''), as_str (py_get d ''query''),
            as_list (py_get d ''columns'')) of
        (Some qn, Some qt, Some column_list) \<Rightarrow>
          if qn \<noteq> [] \<and> qt \<noteq> [] \<and> column_list \<noteq> []
             \<and> (py_get_default d ''tags'' (PList []) = PNone
                  \<or> as_list (py_get_default d ''tags'' (PList [])) \<noteq> None)
          then Some (qn, column_list) else None
      | _ \<Rightarrow> None)"

text \<open>
  \<^verbatim>\<open>self.query_data\<close> as a call of \<^verbatim>\<open>compile\<close> that raises leaves it: the column list
  as the column loop left it and, when the extras loop was reached, the extras list as that
  loop left it.
\<close>

definition stored_query_data ::
  "('f, 't) factory_call \<Rightarrow> 'f factory_effect \<Rightarrow> ('t \<Rightarrow> pyval \<Rightarrow> exn + 't) \<Rightarrow> (string \<rightharpoonup> 'f)
     \<Rightarrow> (string \<rightharpoonup> 'f) \<Rightarrow> pyval \<Rightarrow> pyval" where
  "stored_query_data call effect cet column_transformers extra_transformers qd =
     (case as_dict qd of
        None \<Rightarrow> qd
      | Some d \<Rightarrow>
          (case loops_reached d of
             None \<Rightarrow> qd
           | Some (qn, column_list) \<Rightarrow>
               let d1 = replace_value ''columns''
                          (PList (stored_columns call effect qn column_transformers 1
                                    column_list [])) d in
               (case compile_columns call qn column_transformers 1 column_list [] [] of
                  Inl e \<Rightarrow> PDict d1
                | Inr (sources, column_data) \<Rightarrow>
                    if column_transformers ''tag'' = None then PDict d1
                    else
                      (case as_list (py_get_default d ''extras'' (PList [])) of
                         None \<Rightarrow> PDict d1
                       | Some extra_list \<Rightarrow>
                           PDict (replace_value ''extras''
                                    (PList (stored_extras call effect cet qn extra_transformers
                                              (column_transformers(''tag'' := None)) 1
                                              extra_list sources)) d1)))))"

text \<open>
  The body of \<^verbatim>\<open>Query.compile\<close> from the first read of \<^verbatim>\<open>self.query_data\<close> to the end
  of the extras loop: the five values the method then assigns, or the exception raised.
  \<^verbatim>\<open>submission_transformers\<close> is a copy of the column registry without \<^verbatim>\<open>'tag'\<close>;
  \<^verbatim>\<open>pop('tag')\<close> raises \<^verbatim>\<open>KeyError\<close> when the registry has no such key.
\<close>

definition compile_body ::
  "('f, 't) factory_call \<Rightarrow> ('t \<Rightarrow> pyval \<Rightarrow> exn + 't) \<Rightarrow> (string \<rightharpoonup> 'f) \<Rightarrow> (string \<rightharpoonup> 'f)
     \<Rightarrow> pyval
     \<Rightarrow> exn + (string \<times> string \<times> 't column_entry list \<times> (string \<times> 't) list \<times> pyval)" where
  "compile_body call cet column_transformers extra_transformers qd =
     (case as_dict qd of
        None \<Rightarrow> Inl (Exn AttributeError (py_repr (py_type_name qd)
                                         @ '' object has no attribute '' @ py_repr ''get''))
      | Some d \<Rightarrow>
          let query_name = py_get d ''name'' in
          if \<not> truthy query_name then Inl (Exn ValueError ''query field `name` is required'')
          else case as_str query_name of
            None \<Rightarrow> Inl (Exn ValueError ''query field `name` must be a string'')
          | Some qn \<Rightarrow>
              let query_text = py_get d ''query'' in
              if \<not> truthy query_text then
                Inl (Exn ValueError (''field `query` for '' @ qn @ '' is required''))
              else case as_str query_text of
                None \<Rightarrow> Inl (Exn ValueError (''field `query` for '' @ qn @ '' must be a string''))
              | Some qt \<Rightarrow>
                  let cols = py_get d ''columns'' in
                  if \<not> truthy cols then
                    Inl (Exn ValueError (''field `columns` for '' @ qn @ '' is required''))
                  else case as_list cols of
                    None \<Rightarrow> Inl (Exn ValueError (''field `columns` for '' @ qn
                                                 @ '' must be a list''))
                  | Some column_list \<Rightarrow>
                      let tag_list = py_get_default d ''tags'' (PList []) in
                      if tag_list \<noteq> PNone \<and> as_list tag_list = None then
                        Inl (Exn ValueError (''field `tags` for '' @ qn @ '' must be a list''))
                      else
                        (case compile_columns call qn column_transformers 1 column_list [] [] of
                           Inl e \<Rightarrow> Inl e
                         | Inr (sources, column_data) \<Rightarrow>
                             if column_transformers ''tag'' = None then Inl (Exn KeyError ''tag'')
                             else
                               let submission_transformers = column_transformers(''tag'' := None);
                                   exs = py_get_default d ''extras'' (PList []) in
                               (case as_list exs of
                                  None \<Rightarrow> Inl (Exn ValueError (''field `extras` for '' @ qn
                                                               @ '' must be a list''))
                                | Some extra_list \<Rightarrow>
                                    (case compile_extras call cet qn extra_transformers
                                            submission_transformers 1 extra_list sources [] of
                                       Inl e \<Rightarrow> Inl e
                                     | Inr (sources', extra_data) \<Rightarrow>
                                         Inr (qn, qt, column_data, extra_data, tag_list)))))"

text \<open>
  \<^verbatim>\<open>Query.compile\<close> as a state transformer: what the call raises (or \<open>Inr ()\<close> when it
  returns) and the instance afterwards. The method returns at once when \<^verbatim>\<open>self.name\<close> is
  set; it assigns the attributes, and deletes \<^verbatim>\<open>query_data\<close>, only after both loops. When
  it raises, the attributes are as they were and \<^verbatim>\<open>query_data\<close> holds what the factories
  called so far have left of it.
\<close>

definition compile ::
  "('f, 't) factory_call \<Rightarrow> 'f factory_effect \<Rightarrow> ('t \<Rightarrow> pyval \<Rightarrow> exn + 't) \<Rightarrow> (string \<rightharpoonup> 'f)
     \<Rightarrow> (string \<rightharpoonup> 'f) \<Rightarrow> 't Query \<Rightarrow> (exn + unit) \<times> 't Query" where
  "compile call effect cet column_transformers extra_transformers self =
     (if name self \<noteq> None then (Inr (), self)
      else case query_data self of
        None \<Rightarrow> (Inl (Exn AttributeError (py_repr ''Query'' @ '' object has no attribute ''
                                          @ py_repr ''query_data'')), self)
      | Some qd \<Rightarrow>
          (case compile_body call cet column_transformers extra_transformers qd of
             Inl e \<Rightarrow>
               (Inl e, self\<lparr> query_data :=
                               Some (stored_query_data call effect cet column_transformers
                                       extra_transformers qd) \<rparr>)
           | Inr (qn, qt, column_data, extra_data, tag_list) \<Rightarrow>
               (Inr (), self\<lparr> name := Some qn, query := Some qt, columns := Some column_data,
                               extras := Some extra_data, tags := tag_list,
                               query_data := None \<rparr>)))"

section \<open>Transformers\<close>

text \<open>
  A transformer is a closure called with positional arguments and keyword arguments; what it
  does to the outside world (the submissions) is a change of a state \<open>'s\<close>, and it returns
  a value or raises. A positional argument is a row value (\<^verbatim>\<open>None\<close>, a boolean, a number or a
  string) or the row's source map from names to such values. The messages of the
  interpreter's own \<^verbatim>\<open>TypeError\<close>s are the ones CPython 3.8 prints.
\<close>

datatype scalar = SNone | SBool bool | SInt int | SFloat int int | SStr string

datatype arg = Value scalar | Sources "(string \<times> scalar) list"

type_synonym 's transform = "arg list \<Rightarrow> pydict \<Rightarrow> 's \<Rightarrow> (exn + scalar) \<times> 's"

text \<open>Statement sequencing: the second call runs in the state the first one left, and only
  when the first one did not raise.\<close>

definition and_then ::
  "('s \<Rightarrow> (exn + 'a) \<times> 's) \<Rightarrow> ('a \<Rightarrow> 's \<Rightarrow> (exn + 'b) \<times> 's) \<Rightarrow> 's \<Rightarrow> (exn + 'b) \<times> 's" where
  "and_then m f s = (case m s of (Inl e, s') \<Rightarrow> (Inl e, s') | (Inr a, s') \<Rightarrow> f a s')"

definition returns :: "'a \<Rightarrow> 's \<Rightarrow> (exn + 'a) \<times> 's" where
  "returns a s = (Inr a, s)"

definition raises :: "exn \<Rightarrow> 's \<Rightarrow> (exn + 'a) \<times> 's" where
  "raises e s = (Inl e, s)"

definition missing_argument :: "string \<Rightarrow> string \<Rightarrow> exn" where
  "missing_argument f a =
     Exn TypeError (f @ ''() missing 1 required positional argument: '' @ py_repr a)"

subsection \<open>\<^verbatim>\<open>get_monotonic_gauge\<close>\<close>

text \<open>The closure \<^verbatim>\<open>monotonic_gauge(value, *_, **kwargs)\<close>.\<close>

definition monotonic_gauge :: "'s transform \<Rightarrow> 's transform \<Rightarrow> 's transform" where
  "monotonic_gauge gauge monotonic_count args kwargs =
     (case args of
        [] \<Rightarrow> raises (missing_argument ''monotonic_gauge'' ''value'')
      | v # _ \<Rightarrow>
          and_then (gauge [v] kwargs) (\<lambda>_.
          and_then (monotonic_count [v] kwargs) (\<lambda>_.
          returns SNone)))"

definition get_monotonic_gauge ::
  "('f, 's transform) factory_call \<Rightarrow> string \<Rightarrow> (string \<rightharpoonup> 'f) \<Rightarrow> pydict
     \<Rightarrow> exn + 's transform" where
  "get_monotonic_gauge call column_name transformers modifiers =
     (case transformers ''gauge'' of
        None \<Rightarrow> Inl (Exn KeyError ''gauge'')
      | Some gauge_factory \<Rightarrow>
          (case call gauge_factory (column_name @ ''.total'') transformers modifiers of
             Inl e \<Rightarrow> Inl e
           | Inr gauge \<Rightarrow>
               (case transformers ''monotonic_count'' of
                  None \<Rightarrow> Inl (Exn KeyError ''monotonic_count'')
                | Some count_factory \<Rightarrow>
                    (case call count_factory (column_name @ ''.count'') transformers modifiers of
                       Inl e \<Rightarrow> Inl e
                     | Inr monotonic_count \<Rightarrow> Inr (monotonic_gauge gauge monotonic_count)))))"

subsection \<open>\<^verbatim>\<open>get_temporal_percent\<close>\<close>

text \<open>
  \<^verbatim>\<open>constants.TIME_UNITS\<close> (a table from unit names to integers) and
  \<^verbatim>\<open>total_time_to_temporal_percent\<close> of \<^verbatim>\<open>utils/common.py\<close> are parameters.
  \<open>py_lower\<close> is \<^verbatim>\<open>str.lower\<close> on ASCII text; \<open>is_int\<close> is
  \<^verbatim>\<open>isinstance(x, int)\<close>, which holds for booleans too.
\<close>

definition py_lower :: "string \<Rightarrow> string" where
  "py_lower s =
     map (\<lambda>c. case map_of (zip ''ABCDEFGHIJKLMNOPQRSTUVWXYZ'' ''abcdefghijklmnopqrstuvwxyz'') c of
                 None \<Rightarrow> c | Some l \<Rightarrow> l) s"

fun is_int :: "pyval \<Rightarrow> bool" where
  "is_int (PInt i) = True"
| "is_int (PBool b) = True"
| "is_int _ = False"

fun join :: "string \<Rightarrow> string list \<Rightarrow> string" where
  "join sep [] = []"
| "join sep [x] = x"
| "join sep (x # y # ys) = x @ sep @ join sep (y # ys)"

definition temporal_percent ::
  "(arg \<Rightarrow> pyval \<Rightarrow> exn + arg) \<Rightarrow> pyval \<Rightarrow> 's transform \<Rightarrow> 's transform" where
  "temporal_percent total_time_to_temporal_percent scale rate args kwargs =
     (case args of
        [] \<Rightarrow> raises (missing_argument ''temporal_percent'' ''value'')
      | v # _ \<Rightarrow>
          (case total_time_to_temporal_percent v scale of
             Inl e \<Rightarrow> raises e
           | Inr p \<Rightarrow> and_then (rate [p] kwargs) (\<lambda>_. returns SNone)))"

definition get_temporal_percent ::
  "('f, 's transform) factory_call \<Rightarrow> (string \<times> int) list \<Rightarrow> (arg \<Rightarrow> pyval \<Rightarrow> exn + arg)
     \<Rightarrow> string \<Rightarrow> (string \<rightharpoonup> 'f) \<Rightarrow> pydict \<Rightarrow> exn + 's transform" where
  "get_temporal_percent call TIME_UNITS total_time_to_temporal_percent column_name transformers
     modifiers =
     (let scale = py_get modifiers ''scale'';
          modifiers' = AList.delete ''scale'' modifiers in
      if scale = PNone then Inl (Exn ValueError ''the `scale` parameter is required'')
      else
        case (case as_str scale of
                Some unit \<Rightarrow>
                  (case map_of TIME_UNITS (py_lower unit) of
                     None \<Rightarrow> Inl (Exn ValueError (''the `scale` parameter must be one of: ''
                                    @ join '' | '' (sort (map fst TIME_UNITS))))
                   | Some n \<Rightarrow> Inr (PInt n))
              | None \<Rightarrow>
                  if \<not> is_int scale then
                    Inl (Exn ValueError (''the `scale` parameter must be an integer ''
                           @ ''representing parts of a second e.g. 1000 for millisecond''))
                  else Inr scale) of
          Inl e \<Rightarrow> Inl e
        | Inr scale' \<Rightarrow>
            (case transformers ''rate'' of
               None \<Rightarrow> Inl (Exn KeyError ''rate'')
             | Some rate_factory \<Rightarrow>
                 (case call rate_factory column_name transformers modifiers' of
                    Inl e \<Rightarrow> Inl e
                  | Inr rate \<Rightarrow>
                      Inr (temporal_percent total_time_to_temporal_percent scale' rate))))"

subsection \<open>\<^verbatim>\<open>get_match\<close>\<close>

text \<open>\<^verbatim>\<open>d.update(other)\<close>.\<close>

definition py_update :: "pydict \<Rightarrow> pydict \<Rightarrow> pydict" where
  "py_update d other = fold (\<lambda>kv. AList.update (fst kv) (snd kv)) other d"

text \<open>
  One iteration of the loop of \<^verbatim>\<open>_compile_match_items\<close>: the pair stored under the item,
  or the exception raised. \<open>modifiers\<close> are the modifiers left after \<^verbatim>\<open>items\<close> and
  \<^verbatim>\<open>source\<close> were popped; the \<^verbatim>\<open>pop\<close>s on \<^verbatim>\<open>data\<close> leave the dictionary that
  updates the copy of the modifiers.
\<close>

definition compile_match_item ::
  "('f, 's transform) factory_call \<Rightarrow> (string \<rightharpoonup> 'f) \<Rightarrow> pydict \<Rightarrow> pyval \<Rightarrow> string \<Rightarrow> pyval
     \<Rightarrow> exn + (string \<times> 's transform)" where
  "compile_match_item call transformers modifiers global_transform_source item data_value =
     (case as_dict data_value of
        None \<Rightarrow> Inl (Exn ValueError (''item `'' @ item @ ''` is not a mapping''))
      | Some data \<Rightarrow>
          let transform_name = py_get data ''name'';
              data1 = AList.delete ''name'' data in
          if \<not> truthy transform_name then
            Inl (Exn ValueError (''the `name` parameter for item `'' @ item @ ''` is required''))
          else case as_str transform_name of
            None \<Rightarrow> Inl (Exn ValueError (''the `name` parameter for item `'' @ item
                                         @ ''` must be a string''))
          | Some tname \<Rightarrow>
              let transform_type = py_get data1 ''type'';
                  data2 = AList.delete ''type'' data1 in
              if \<not> truthy transform_type then
                Inl (Exn ValueError (''the `type` parameter for item `'' @ item
                                     @ ''` is required''))
              else case as_str transform_type of
                None \<Rightarrow> Inl (Exn ValueError (''the `type` parameter for item `'' @ item
                                             @ ''` must be a string''))
              | Some ttype \<Rightarrow>
                  (case transformers ttype of
                     None \<Rightarrow> Inl (Exn ValueError (''unknown type `'' @ ttype @ ''` for item `''
                                                  @ item @ ''`''))
                   | Some factory \<Rightarrow>
                       let transform_source = py_get_default data2 ''source'' global_transform_source;
                           data3 = AList.delete ''source'' data2 in
                       if \<not> truthy transform_source then
                         Inl (Exn ValueError (''the `source` parameter for item `'' @ item
                                              @ ''` is required''))
                       else case as_str transform_source of
                         None \<Rightarrow> Inl (Exn ValueError (''the `source` parameter for item `'' @ item
                                                      @ ''` must be a string''))
                       | Some tsource \<Rightarrow>
                           let transform_modifiers = py_update modifiers data3 in
                           (case call factory tname transformers transform_modifiers of
                              Inl e \<Rightarrow> Inl e
                            | Inr transformer \<Rightarrow> Inr (tsource, transformer))))"

fun compile_match_loop ::
  "('f, 's transform) factory_call \<Rightarrow> (string \<rightharpoonup> 'f) \<Rightarrow> pydict \<Rightarrow> pyval \<Rightarrow> pydict
     \<Rightarrow> (string \<times> string \<times> 's transform) list
     \<Rightarrow> exn + (string \<times> string \<times> 's transform) list" where
  "compile_match_loop call transformers modifiers global_transform_source [] compiled_items =
     Inr compiled_items"
| "compile_match_loop call transformers modifiers global_transform_source ((item, data) # rest)
     compiled_items =
     (case compile_match_item call transformers modifiers global_transform_source item data of
        Inl e \<Rightarrow> Inl e
      | Inr compiled \<Rightarrow>
          compile_match_loop call transformers modifiers global_transform_source rest
            (AList.update item compiled compiled_items))"

text \<open>\<^verbatim>\<open>_compile_match_items\<close>.\<close>

definition compile_match_items ::
  "('f, 's transform) factory_call \<Rightarrow> (string \<rightharpoonup> 'f) \<Rightarrow> pydict
     \<Rightarrow> exn + (string \<times> string \<times> 's transform) list" where
  "compile_match_items call transformers modifiers =
     (let items = py_get modifiers ''items'';
          modifiers1 = AList.delete ''items'' modifiers in
      if items = PNone then Inl (Exn ValueError ''the `items` parameter is required'')
      else case as_dict items of
        None \<Rightarrow> Inl (Exn ValueError ''the `items` parameter must be a mapping'')
      | Some item_list \<Rightarrow>
          let global_transform_source = py_get modifiers1 ''source'';
              modifiers2 = AList.delete ''source'' modifiers1 in
          compile_match_loop call transformers modifiers2 global_transform_source item_list [])"

text \<open>
  The closure \<^verbatim>\<open>match(value, sources, *_, **kwargs)\<close>. The keys of \<^verbatim>\<open>compiled_items\<close>
  are strings, so a row value is a key when it is that string; a source map given as the
  value cannot be hashed, and a row value given as the source map cannot be indexed.
\<close>

definition lookup_item :: "(string \<times> 'a) list \<Rightarrow> scalar \<Rightarrow> 'a option" where
  "lookup_item compiled_items v = (case v of SStr k \<Rightarrow> map_of compiled_items k | _ \<Rightarrow> None)"

fun scalar_type_name :: "scalar \<Rightarrow> string" where
  "scalar_type_name SNone = ''NoneType''"
| "scalar_type_name (SBool b) = ''bool''"
| "scalar_type_name (SInt i) = ''int''"
| "scalar_type_name (SFloat m e) = ''float''"
| "scalar_type_name (SStr s) = ''str''"

definition subscript :: "arg \<Rightarrow> string \<Rightarrow> exn + scalar" where
  "subscript sources k =
     (case sources of
        Sources m \<Rightarrow> (case map_of m k of None \<Rightarrow> Inl (Exn KeyError k) | Some x \<Rightarrow> Inr x)
      | Value (SStr s) \<Rightarrow> Inl (Exn TypeError ''string indices must be integers'')
      | Value w \<Rightarrow> Inl (Exn TypeError (py_repr (scalar_type_name w)
                                        @ '' object is not subscriptable'')))"

definition match :: "(string \<times> string \<times> 's transform) list \<Rightarrow> 's transform" where
  "match compiled_items args kwargs =
     (case args of
        [] \<Rightarrow> raises (Exn TypeError (''match() missing 2 required positional arguments: ''
                                      @ py_repr ''value'' @ '' and '' @ py_repr ''sources''))
      | [v] \<Rightarrow> raises (missing_argument ''match'' ''sources'')
      | v # sources # _ \<Rightarrow>
          (case v of
             Sources m \<Rightarrow> raises (Exn TypeError (''unhashable type: '' @ py_repr ''dict''))
           | Value x \<Rightarrow>
               (case lookup_item compiled_items x of
                  None \<Rightarrow> returns SNone
                | Some (source, transformer) \<Rightarrow>
                    (case subscript sources source of
                       Inl e \<Rightarrow> raises e
                     | Inr y \<Rightarrow> and_then (transformer [Value y] kwargs) (\<lambda>_. returns SNone)))))"

definition get_match ::
  "('f, 's transform) factory_call \<Rightarrow> string \<Rightarrow> (string \<rightharpoonup> 'f) \<Rightarrow> pydict
     \<Rightarrow> exn + 's transform" where
  "get_match call column_name transformers modifiers =
     (case compile_match_items call transformers modifiers of
        Inl e \<Rightarrow> Inl e
      | Inr compiled_items \<Rightarrow> Inr (match compiled_items))"




subsection \<open>\<^verbatim>\<open>get_expression\<close>: the substitution of source names\<close>

text \<open>
  \<^verbatim>\<open>re.sub\<close> with \<^verbatim>\<open>SOURCE_PATTERN\<close> filled with the escaped names joined by
  \<^verbatim>\<open>|\<close>. An escaped name matches itself, so the pattern matches, at a position that
  does not follow a quote character, the first alternative in order that is a prefix of the
  remaining text and is not followed by a quote character. The scan goes from left to right
  and resumes after each match. An empty alternative matches the empty string; after an
  empty match the next match at the same position must be non-empty (CPython 3.7 and
  later). \<open>prev\<close> is the character before the position and \<open>skip\<close> counts the matched
  characters still to be consumed.
\<close>

definition is_quote :: "char \<Rightarrow> bool" where
  "is_quote c = (c = CHR 0x22 \<or> c = CHR 0x27)"

definition lookbehind_ok :: "char option \<Rightarrow> bool" where
  "lookbehind_ok prev = (case prev of None \<Rightarrow> True | Some c \<Rightarrow> \<not> is_quote c)"

definition lookahead_ok :: "string \<Rightarrow> bool" where
  "lookahead_ok rest = (case rest of [] \<Rightarrow> True | c # _ \<Rightarrow> \<not> is_quote c)"

fun match_at :: "bool \<Rightarrow> string list \<Rightarrow> string \<Rightarrow> string option" where
  "match_at must_advance [] text = None"
| "match_at must_advance (a # alts) text =
     (if take (length a) text = a \<and> lookahead_ok (drop (length a) text)
         \<and> (if must_advance then a \<noteq> [] else True)
      then Some a else match_at must_advance alts text)"

text \<open>The replacement \<^verbatim>\<open>'SOURCES["{}"]'.format(match_obj.group(1))\<close>.\<close>

definition replacement :: "string \<Rightarrow> string" where
  "replacement a = ''SOURCES['' @ [CHR 0x22] @ a @ [CHR 0x22] @ '']''"

fun re_sub_sources :: "string list \<Rightarrow> char option \<Rightarrow> nat \<Rightarrow> string \<Rightarrow> string" where
  "re_sub_sources alts prev skip [] =
     (if skip = 0 \<and> lookbehind_ok prev \<and> match_at False alts [] \<noteq> None
      then replacement [] else [])"
| "re_sub_sources alts prev skip (c # cs) =
     (if 0 < skip then re_sub_sources alts (Some c) (skip - 1) cs
      else if \<not> lookbehind_ok prev then c # re_sub_sources alts (Some c) 0 cs
      else case match_at False alts (c # cs) of
        None \<Rightarrow> c # re_sub_sources alts (Some c) 0 cs
      | Some a \<Rightarrow>
          if a \<noteq> [] then replacement a @ re_sub_sources alts (Some c) (length a - 1) cs
          else replacement a @
            (case match_at True alts (c # cs) of
               None \<Rightarrow> c # re_sub_sources alts (Some c) 0 cs
             | Some a' \<Rightarrow> replacement a' @ re_sub_sources alts (Some c) (length a' - 1) cs))"

text \<open>
  What \<^verbatim>\<open>sorted(available_sources, key=lambda s: -len(s))\<close> iterates over: the keys of a
  mapping (the Source Table that \<^verbatim>\<open>Query.compile\<close> passes), the elements of a list, the
  characters of a string. In a list, an element without a length fails in the sort key; an
  element with a length that is not a string goes through the sort and fails in
  \<^verbatim>\<open>re.escape\<close>, which is applied in sorted order. The sort is stable.
\<close>

fun has_len :: "pyval \<Rightarrow> bool" where
  "has_len (PStr s) = True"
| "has_len (PList xs) = True"
| "has_len (PDict d) = True"
| "has_len _ = False"

fun py_len :: "pyval \<Rightarrow> nat" where
  "py_len (PStr s) = length s"
| "py_len (PList xs) = length xs"
| "py_len (PDict d) = length d"
| "py_len _ = 0"

definition source_names :: "pyval \<Rightarrow> exn + string list" where
  "source_names available_sources =
     (case available_sources of
        PDict d \<Rightarrow> Inr (map fst d)
      | PStr s \<Rightarrow> Inr (map (\<lambda>c. [c]) s)
      | PList xs \<Rightarrow>
          (case filter (\<lambda>x. \<not> has_len x) xs of
             x # _ \<Rightarrow> Inl (Exn TypeError (''object of type '' @ py_repr (py_type_name x)
                                          @ '' has no len()''))
           | [] \<Rightarrow>
               (case filter (\<lambda>x. as_str x = None) (sort_key (\<lambda>x. - int (py_len x)) xs) of
                  [] \<Rightarrow> Inr (map (\<lambda>x. case x of PStr s \<Rightarrow> s | _ \<Rightarrow> []) xs)
                | x # _ \<Rightarrow> Inl (Exn TypeError (''decoding to str: need a bytes-like object, ''
                                               @ py_type_name x @ '' found''))))
      | v \<Rightarrow> Inl (Exn TypeError (py_repr (py_type_name v) @ '' object is not iterable'')))"

text \<open>The names sorted by decreasing length are the alternatives of the pattern; joined
  with \<^verbatim>\<open>|\<close>, no name at all gives the one empty alternative.\<close>

definition substitute_sources :: "string list \<Rightarrow> string \<Rightarrow> string" where
  "substitute_sources available_sources expression =
     re_sub_sources
       (case sort_key (\<lambda>s. - int (length s)) available_sources of
          [] \<Rightarrow> [[]]
        | a # alts \<Rightarrow> a # alts)
       None 0 expression"

text \<open>
  \<^verbatim>\<open>get_expression\<close> up to the call of the built-in \<^verbatim>\<open>compile\<close>: the checks of the
  modifiers and the expression text that is then compiled.
\<close>

definition expression_source :: "pydict \<Rightarrow> exn + string" where
  "expression_source modifiers =
     (case map_of modifiers ''sources'' of
        None \<Rightarrow> Inl (Exn KeyError ''sources'')
      | Some available_sources \<Rightarrow>
          let modifiers1 = AList.delete ''sources'' modifiers;
              expression = py_get modifiers1 ''expression'';
              modifiers2 = AList.delete ''expression'' modifiers1 in
          if expression = PNone then
            Inl (Exn ValueError ''the `expression` parameter is required'')
          else case as_str expression of
            None \<Rightarrow> Inl (Exn ValueError ''the `expression` parameter must be a string'')
          | Some text \<Rightarrow>
              if text = [] then
                Inl (Exn ValueError ''the `expression` parameter must not be empty'')
              else if \<not> truthy (py_get_default modifiers2 ''verbose'' (PBool False)) then
                (case source_names available_sources of
                   Inl e \<Rightarrow> Inl e
                 | Inr names \<Rightarrow> Inr (substitute_sources names text))
              else Inr text)"

section \<open>Configurations as the specification describes them\<close>

text \<open>
  The name an entry of \<^verbatim>\<open>columns\<close> or \<^verbatim>\<open>extras\<close> declares: the entry is a mapping whose
  \<^verbatim>\<open>name\<close> is a non-empty string. \<open>decls kind i entries\<close> lists the declared names of
  \<open>entries\<close> with the kind and the 1-based position of their entries, counted from \<open>i\<close>.
\<close>

fun declared_name :: "pyval \<Rightarrow> string option" where
  "declared_name (PDict c) =
     (case map_of c ''name'' of
        Some (PStr n) \<Rightarrow> if n = [] then None else Some n
      | _ \<Rightarrow> None)"
| "declared_name _ = None"

fun decls :: "string \<Rightarrow> nat \<Rightarrow> pyval list \<Rightarrow> source_table" where
  "decls kind i [] = []"
| "decls kind i (x # xs) =
     (case declared_name x of
        None \<Rightarrow> decls kind (Suc i) xs
      | Some n \<Rightarrow> (n, (kind, i)) # decls kind (Suc i) xs)"

definition config_columns :: "pydict \<Rightarrow> pyval list" where
  "config_columns d = (case as_list (py_get d ''columns'') of None \<Rightarrow> [] | Some cs \<Rightarrow> cs)"

definition config_extras :: "pydict \<Rightarrow> pyval list" where
  "config_extras d =
     (case as_list (py_get_default d ''extras'' (PList [])) of None \<Rightarrow> [] | Some es \<Rightarrow> es)"

text \<open>The entries of a configuration in the order the compiler visits them, with the kind
  and the 1-based index of the entry at a position of that order.\<close>

definition config_entries :: "pydict \<Rightarrow> pyval list" where
  "config_entries d = config_columns d @ config_extras d"

definition entry_kind :: "pydict \<Rightarrow> nat \<Rightarrow> string" where
  "entry_kind d j = (if j < length (config_columns d) then ''column'' else ''extra'')"

definition entry_index :: "pydict \<Rightarrow> nat \<Rightarrow> nat" where
  "entry_index d j =
     (if j < length (config_columns d) then Suc j else Suc (j - length (config_columns d)))"

text \<open>The configuration cut off just before the entry at position \<open>j\<close>: the entries before
  it stay, the entry and all later ones are gone.\<close>

definition truncate_config :: "pydict \<Rightarrow> nat \<Rightarrow> pydict" where
  "truncate_config d j =
     AList.update ''extras'' (PList (take (j - length (config_columns d)) (config_extras d)))
       (AList.update ''columns'' (PList (take j (config_columns d))) d)"

text \<open>The type the compiler resolves for an extra entry, when it resolves one.\<close>

definition extra_type_of :: "pydict \<Rightarrow> string option" where
  "extra_type_of x =
     (if truthy (py_get x ''type'') then as_str (py_get x ''type'')
      else if map_of x ''expression'' \<noteq> None then Some ''expression'' else None)"

section \<open>A registry of submission factories\<close>

text \<open>
  Modelled from the spec: \<^verbatim>\<open>create_extra_transformer\<close> of \<^verbatim>\<open>utils.py\<close>, which is not
  among the sources. Given a transform made for a single value and a fixed source name, it
  produces a transform that takes the source map first, extracts the value stored under the
  name and forwards it with the other arguments; without a source name the value to forward
  is the argument after the source map. Building the adapter raises nothing.
\<close>

definition create_extra_transformer :: "'s transform \<Rightarrow> pyval \<Rightarrow> exn + 's transform" where
  "create_extra_transformer column_transformer source =
     Inr (\<lambda>args kwargs.
            case args of
              [] \<Rightarrow> raises (missing_argument ''transformer'' ''sources'')
            | sources # rest \<Rightarrow>
                (case as_str source of
                   Some k \<Rightarrow>
                     (case subscript sources k of
                        Inl e \<Rightarrow> raises e
                      | Inr v \<Rightarrow> column_transformer (Value v # rest) kwargs)
                 | None \<Rightarrow> column_transformer rest kwargs))"

text \<open>
  The submission methods (\<^verbatim>\<open>gauge\<close>, \<^verbatim>\<open>rate\<close>, \<^verbatim>\<open>monotonic_count\<close>, ...) belong to the
  caller, who registers a factory for each. The examples below use a registry whose factory
  objects are method names; the transformer a factory builds appends the submission (method,
  metric name, positional arguments, modifiers, keyword arguments) to a log.
\<close>

type_synonym submission = "string \<times> string \<times> arg list \<times> pydict \<times> pydict"

definition submission_factory :: "(string, submission list transform) factory_call" where
  "submission_factory method metric transformers modifiers =
     Inr (\<lambda>args kwargs log. (Inr SNone, log @ [(method, metric, args, modifiers, kwargs)]))"

definition submission_effect :: "string factory_effect" where
  "submission_effect method metric transformers modifiers = modifiers"

definition example_columns :: "string \<rightharpoonup> string" where
  "example_columns =
     [''gauge'' \<mapsto> ''gauge'', ''monotonic_count'' \<mapsto> ''monotonic_count'', ''rate'' \<mapsto> ''rate'',
      ''tag'' \<mapsto> ''tag'']"

definition example_config :: pydict where
  "example_config =
     [(''name'', PStr ''q''), (''query'', PStr ''select 1''),
      (''columns'', PList [PDict [(''name'', PStr ''a''), (''type'', PStr ''source'')],
                           PNone,
                           PDict [(''name'', PStr ''b''), (''type'', PStr ''gauge'')]]),
      (''extras'', PList [PDict [(''name'', PStr ''e''), (''type'', PStr ''gauge''),
                                 (''source'', PStr ''a'')]])]"

text \<open>A table of time units for the examples: the number of each unit in a second.\<close>

definition example_time_units :: "(string \<times> int) list" where
  "example_time_units =
     [(''microsecond'', 1000000), (''millisecond'', 1000), (''nanosecond'', 1000000000),
      (''second'', 1)]"


text \<open>Three more configurations: an extra that declares the name of a column; two columns
  of the same name with an entry between them that is not a mapping; an extra whose
  \<^verbatim>\<open>source\<close> is not a declared name.\<close>

definition duplicate_config :: pydict where
  "duplicate_config =
     [(''name'', PStr ''q''), (''query'', PStr ''select 1''),
      (''columns'', PList [PDict [(''name'', PStr ''cpu''), (''type'', PStr ''source'')]]),
      (''extras'', PList [PDict [(''name'', PStr ''cpu''), (''type'', PStr ''gauge''),
                                 (''source'', PStr ''cpu'')]])]"

definition preempted_config :: pydict where
  "preempted_config =
     [(''name'', PStr ''q''), (''query'', PStr ''select 1''),
      (''columns'', PList [PDict [(''name'', PStr ''cpu''), (''type'', PStr ''source'')],
                           PInt 5,
                           PDict [(''name'', PStr ''cpu''), (''type'', PStr ''gauge'')]])]"

definition undeclared_source_config :: pydict where
  "undeclared_source_config =
     [(''name'', PStr ''q''), (''query'', PStr ''select 1''),
      (''columns'', PList [PDict [(''name'', PStr ''cpu''), (''type'', PStr ''source'')]]),
      (''extras'', PList [PDict [(''name'', PStr ''load''), (''type'', PStr ''gauge''),
                                 (''source'', PStr ''nope'')]])]"

text \<open>Modifiers for \<^verbatim>\<open>match\<close> with the single item \<^verbatim>\<open>OK\<close>, and the transformer the
  registry above builds for that item.\<close>

definition example_match_modifiers :: pydict where
  "example_match_modifiers =
     [(''items'', PDict [(''OK'', PDict [(''name'', PStr ''ok_count''),
                                         (''type'', PStr ''monotonic_count''),
                                         (''source'', PStr ''status'')])])]"

definition ok_count :: "submission list transform" where
  "ok_count = (\<lambda>args kwargs log.
      (Inr SNone, log @ [(''monotonic_count'', ''ok_count'', args, [], kwargs)]))"







section \<open>Properties of \<^verbatim>\<open>Query.compile\<close>\<close>

subsection \<open>Evaluation and lookup lemmas\<close>

lemmas compile_eval =
  compile_def compile_body_def Query_init_def py_get_def py_get_default_def
  compile_column_def compile_extra_def resolve_extra_type_def without_keys_def
  already_defined_def exn_str_def sources_value_def
  submission_factory_def create_extra_transformer_def example_columns_def


lemma example_compiles:
  "fst (compile submission_factory submission_effect create_extra_transformer example_columns Map.empty
          (Query_init (PDict example_config))) = Inr ()"
  by (simp add: compile_eval example_config_def)


lemmas config_eval =
  config_entries_def config_columns_def config_extras_def entry_kind_def entry_index_def
  truncate_config_def extra_type_of_def str_of_nat.simps digit_char_def

lemma py_get_default_update:
  "py_get_default (AList.update k v d) k' dflt = (if k' = k then v else py_get_default d k' dflt)"
  by (simp add: py_get_default_def update_conv')

lemma py_get_update:
  "py_get (AList.update k v d) k' = (if k' = k then v else py_get d k')"
  by (simp add: py_get_def py_get_default_update)

lemma update_not_Nil: "AList.update k v d \<noteq> []"
  by (cases d) auto

lemma truthy_update: "truthy (PDict (AList.update k v d))"
  by (simp add: update_not_Nil)

lemma as_list_None_iff: "as_list v = None \<longleftrightarrow> (\<forall>xs. v \<noteq> PList xs)"
  by (cases v) auto

subsection \<open>The two loops\<close>

text \<open>
  A step of either loop that succeeds appends to the Source Table exactly the name its entry
  declares, and that name was not in the table. So after a loop that succeeds the table
  lists the declared names of the entries with their kind and position, without repetition;
  and a step on an entry whose name is in the table raises the duplicate error built from
  the table's record of that name.
\<close>

lemma update_fresh: "map_of S n = None \<Longrightarrow> AList.update n v S = S @ [(n, v)]"
  by (induction S) (auto split: if_splits)

lemma declared_nameI:
  "as_dict c = Some d \<Longrightarrow> truthy (py_get d ''name'') \<Longrightarrow> as_str (py_get d ''name'') = Some cn
   \<Longrightarrow> declared_name c = Some cn"
  by (cases c; cases "map_of d ''name''")
     (auto simp: py_get_def py_get_default_def split: pyval.splits)

lemma declared_nameD:
  "declared_name c = Some n \<Longrightarrow> \<exists>d. c = PDict d \<and> py_get d ''name'' = PStr n \<and> n \<noteq> [] \<and> d \<noteq> []"
  by (cases c) (auto simp: py_get_def py_get_default_def split: option.splits pyval.splits if_splits)

lemma falsy_declares_nothing: "\<not> truthy c \<Longrightarrow> declared_name c = None"
  by (cases c) auto

lemma compile_column_falsy:
  "\<not> truthy c \<Longrightarrow> compile_column call qn ct i S c = Inr (S, (None, None))"
  by (simp add: compile_column_def)

lemma compile_column_Inr:
  assumes "compile_column call qn ct i S c = Inr (S', e)"
  shows "S' = S @ decls ''column'' i [c]"
    and "declared_name c = Some n \<Longrightarrow> map_of S n = None"
proof -
  show "S' = S @ decls ''column'' i [c]"
  proof (cases "truthy c")
    case False
    with assms show ?thesis by (simp add: compile_column_falsy falsy_declares_nothing)
  next
    case True
    with assms obtain d cn where d: "as_dict c = Some d" "truthy (py_get d ''name'')"
        "as_str (py_get d ''name'') = Some cn" "map_of S cn = None"
        and S': "S' = AList.update cn (''column'', i) S"
      by (auto simp: compile_column_def Let_def split: option.splits if_splits sum.splits)
    from d have "declared_name c = Some cn" by (simp add: declared_nameI)
    with S' d show ?thesis by (simp add: update_fresh)
  qed
  show "declared_name c = Some n \<Longrightarrow> map_of S n = None"
  proof -
    assume dn: "declared_name c = Some n"
    then have "truthy c" using falsy_declares_nothing by fastforce
    with assms obtain d cn where d: "as_dict c = Some d" "truthy (py_get d ''name'')"
        "as_str (py_get d ''name'') = Some cn" "map_of S cn = None"
      by (auto simp: compile_column_def Let_def split: option.splits if_splits sum.splits)
    from d have "declared_name c = Some cn" by (simp add: declared_nameI)
    with dn d show ?thesis by simp
  qed
qed

lemma compile_column_duplicate:
  assumes "declared_name c = Some n" "map_of S n = Some (kind, idx)"
  shows "compile_column call qn ct i S c = Inl (already_defined n qn kind idx)"
proof -
  from assms(1) obtain d where "c = PDict d" "py_get d ''name'' = PStr n" "n \<noteq> []" "d \<noteq> []"
    using declared_nameD by blast
  with assms(2) show ?thesis by (simp add: compile_column_def)
qed

lemma decls_append: "decls kind i (xs @ ys) = decls kind i xs @ decls kind (i + length xs) ys"
  by (induction xs arbitrary: i) (auto split: option.splits)

lemma compile_columns_append:
  "compile_columns call qn ct i (xs @ ys) S cd =
     (case compile_columns call qn ct i xs S cd of
        Inl e \<Rightarrow> Inl e
      | Inr (S', cd') \<Rightarrow> compile_columns call qn ct (i + length xs) ys S' cd')"
  by (induction xs arbitrary: i S cd) (auto split: sum.splits)

lemma decls_keys_fresh:
  "(n, v) \<in> set (decls kind i xs) \<Longrightarrow> \<exists>k<length xs. declared_name (xs ! k) = Some n \<and> v = (kind, i + k)"
proof (induction xs arbitrary: i)
  case Nil then show ?case by simp
next
  case (Cons x xs)
  show ?case
  proof (cases "(n, v) \<in> set (decls kind (Suc i) xs)")
    case True
    from Cons.IH[OF this] obtain k where "k < length xs" "declared_name (xs ! k) = Some n" "v = (kind, Suc i + k)" by blast
    then have "Suc k < length (x # xs) \<and> declared_name ((x # xs) ! Suc k) = Some n \<and> v = (kind, i + Suc k)" by simp
    then show ?thesis by blast
  next
    case False
    with Cons.prems have "declared_name x = Some n \<and> v = (kind, i)" by (auto split: option.splits)
    then have "0 < length (x # xs) \<and> declared_name ((x # xs) ! 0) = Some n \<and> v = (kind, i + 0)" by simp
    then show ?thesis by blast
  qed
qed

lemma decls_member:
  "k < length xs \<Longrightarrow> declared_name (xs ! k) = Some n \<Longrightarrow> (n, (kind, i + k)) \<in> set (decls kind i xs)"
proof (induction xs arbitrary: i k)
  case Nil then show ?case by simp
next
  case (Cons x xs)
  show ?case
  proof (cases k)
    case 0
    with Cons.prems show ?thesis by simp
  next
    case (Suc k')
    with Cons.prems have "(n, (kind, Suc i + k')) \<in> set (decls kind (Suc i) xs)"
      by (intro Cons.IH) auto
    with Suc show ?thesis by (auto split: option.splits)
  qed
qed

lemma compile_columns_Inr:
  assumes "compile_columns call qn ct i cols S cd = Inr (S', cd')"
  shows "S' = S @ decls ''column'' i cols"
    and "distinct (map fst S) \<Longrightarrow> distinct (map fst S')"
    and "length cd' = length cd + length cols"
    and "k < length cols \<Longrightarrow> \<not> truthy (cols ! k) \<Longrightarrow> cd' ! (length cd + k) = (None, None)"
    and "k < length cd \<Longrightarrow> cd' ! k = cd ! k"
  using assms
proof (induction cols arbitrary: i S cd k)
  case Nil
  { case 1 then show ?case by simp }
  { case 2 then show ?case by simp }
  { case 3 then show ?case by simp }
  { case 4 then show ?case by simp }
  { case 5 then show ?case by simp }
next
  case (Cons c cols)
  { case 1
    then obtain S1 e where st: "compile_column call qn ct i S c = Inr (S1, e)"
      and rest: "compile_columns call qn ct (Suc i) cols S1 (cd @ [e]) = Inr (S', cd')"
      by (auto split: sum.splits)
    from Cons.IH(1)[OF rest] compile_column_Inr(1)[OF st]
    show ?case by (simp split: option.splits) }
  { case 2
    then obtain S1 e where st: "compile_column call qn ct i S c = Inr (S1, e)"
      and rest: "compile_columns call qn ct (Suc i) cols S1 (cd @ [e]) = Inr (S', cd')"
      by (auto split: sum.splits)
    have "distinct (map fst S1)"
    proof (cases "declared_name c")
      case None
      with compile_column_Inr(1)[OF st] 2(1) show ?thesis by simp
    next
      case (Some n)
      from compile_column_Inr(2)[OF st Some] have "n \<notin> fst ` set S"
        by (simp add: map_of_eq_None_iff)
      with compile_column_Inr(1)[OF st] Some 2(1) show ?thesis by simp
    qed
    from Cons.IH(2)[OF this rest] show ?case . }
  { case 3
    then obtain S1 e where st: "compile_column call qn ct i S c = Inr (S1, e)"
      and rest: "compile_columns call qn ct (Suc i) cols S1 (cd @ [e]) = Inr (S', cd')"
      by (auto split: sum.splits)
    from Cons.IH(3)[OF rest] show ?case by simp }
  { case 4
    then obtain S1 e where st: "compile_column call qn ct i S c = Inr (S1, e)"
      and rest: "compile_columns call qn ct (Suc i) cols S1 (cd @ [e]) = Inr (S', cd')"
      by (auto split: sum.splits)
    show ?case
    proof (cases k)
      case 0
      with 4 st have "e = (None, None)" by (simp add: compile_column_falsy)
      moreover from Cons.IH(5)[OF _ rest, of "length cd"] have "cd' ! length cd = (cd @ [e]) ! length cd" by simp
      ultimately show ?thesis using 0 by simp
    next
      case (Suc k')
      with 4 have "k' < length cols" "\<not> truthy (cols ! k')" by auto
      from Cons.IH(4)[OF this rest] Suc show ?thesis by simp
    qed }
  { case 5
    then obtain S1 e where st: "compile_column call qn ct i S c = Inr (S1, e)"
      and rest: "compile_columns call qn ct (Suc i) cols S1 (cd @ [e]) = Inr (S', cd')"
      by (auto split: sum.splits)
    from 5(1) have "k < length (cd @ [e])" by simp
    from Cons.IH(5)[OF this rest] 5(1) show ?case by (simp add: nth_append) }
qed

lemma compile_extra_Inr:
  assumes "compile_extra call cet qn et st i S x = Inr (S', e)"
  shows "S' = S @ decls ''extra'' i [x]"
    and "declared_name x = Some n \<Longrightarrow> map_of S n = None"
proof -
  from assms obtain d en where d: "as_dict x = Some d" "truthy (py_get d ''name'')"
      "as_str (py_get d ''name'') = Some en" "map_of S en = None"
      and S': "S' = AList.update en (''extra'', i) S"
    by (auto simp: compile_extra_def Let_def split: option.splits if_splits sum.splits)
  from d have dn: "declared_name x = Some en" by (simp add: declared_nameI)
  with S' d show "S' = S @ decls ''extra'' i [x]" by (simp add: update_fresh)
  from dn d show "declared_name x = Some n \<Longrightarrow> map_of S n = None" by simp
qed

lemma compile_extra_source:
  assumes "compile_extra call cet qn et st i S (PDict x) = Inr (S', e)"
    and "extra_type_of x = Some ty" "st ty \<noteq> None"
  shows "truthy (py_get x ''source'')"
  using assms
  by (auto simp: compile_extra_def resolve_extra_type_def extra_type_of_def Let_def
           split: option.splits if_splits sum.splits)

lemma compile_extra_duplicate:
  assumes "declared_name x = Some n" "map_of S n = Some (kind, idx)"
  shows "compile_extra call cet qn et st i S x = Inl (already_defined n qn kind idx)"
proof -
  from assms(1) obtain d where "x = PDict d" "py_get d ''name'' = PStr n" "n \<noteq> []" "d \<noteq> []"
    using declared_nameD by blast
  with assms(2) show ?thesis by (simp add: compile_extra_def)
qed

lemma compile_extras_append:
  "compile_extras call cet qn et st i (xs @ ys) S ed =
     (case compile_extras call cet qn et st i xs S ed of
        Inl e \<Rightarrow> Inl e
      | Inr (S', ed') \<Rightarrow> compile_extras call cet qn et st (i + length xs) ys S' ed')"
  by (induction xs arbitrary: i S ed) (auto split: sum.splits)

lemma compile_extras_Inr:
  assumes "compile_extras call cet qn et st i exs S ed = Inr (S', ed')"
  shows "S' = S @ decls ''extra'' i exs"
    and "distinct (map fst S) \<Longrightarrow> distinct (map fst S')"
    and "k < length exs \<Longrightarrow> \<exists>Sk r. compile_extra call cet qn et st (i + k) Sk (exs ! k) = Inr r"
  using assms
proof (induction exs arbitrary: i S ed k)
  case Nil
  { case 1 then show ?case by simp }
  { case 2 then show ?case by simp }
  { case 3 then show ?case by simp }
next
  case (Cons x exs)
  { case 1
    then obtain S1 e where st: "compile_extra call cet qn et st i S x = Inr (S1, e)"
      and rest: "compile_extras call cet qn et st (Suc i) exs S1 (ed @ [e]) = Inr (S', ed')"
      by (auto split: sum.splits)
    from Cons.IH(1)[OF rest] compile_extra_Inr(1)[OF st]
    show ?case by (simp split: option.splits) }
  { case 2
    then obtain S1 e where st: "compile_extra call cet qn et st i S x = Inr (S1, e)"
      and rest: "compile_extras call cet qn et st (Suc i) exs S1 (ed @ [e]) = Inr (S', ed')"
      by (auto split: sum.splits)
    have "distinct (map fst S1)"
    proof (cases "declared_name x")
      case None
      with compile_extra_Inr(1)[OF st] 2(1) show ?thesis by simp
    next
      case (Some n)
      from compile_extra_Inr(2)[OF st Some] have "n \<notin> fst ` set S"
        by (simp add: map_of_eq_None_iff)
      with compile_extra_Inr(1)[OF st] Some 2(1) show ?thesis by simp
    qed
    from Cons.IH(2)[OF this rest] show ?case . }
  { case 3
    then obtain S1 e where st: "compile_extra call cet qn et st i S x = Inr (S1, e)"
      and rest: "compile_extras call cet qn et st (Suc i) exs S1 (ed @ [e]) = Inr (S', ed')"
      by (auto split: sum.splits)
    show ?case
    proof (cases k)
      case 0
      from st have "compile_extra call cet qn et st (i + 0) S ((x # exs) ! 0) = Inr (S1, e)"
        by simp
      then show ?thesis unfolding 0 by blast
    next
      case (Suc k')
      with 3 have "k' < length exs" by simp
      from Cons.IH(3)[OF this rest] Suc show ?thesis by simp
    qed }
qed

subsection \<open>The body of \<^verbatim>\<open>compile\<close> on a new instance\<close>

lemma as_str_Some: "as_str v = Some s \<longleftrightarrow> v = PStr s"
  by (cases v) auto

lemma as_list_Some: "as_list v = Some xs \<longleftrightarrow> v = PList xs"
  by (cases v) auto

lemma compile_fresh:
  "compile call effect cet ct et (Query_init (PDict d)) =
     (case compile_body call cet ct et (PDict d) of
        Inl e \<Rightarrow>
          (Inl e, \<lparr> query_data = Some (stored_query_data call effect cet ct et (PDict d)),
                    name = None, query = None, columns = None, extras = None, tags = PNone \<rparr>)
      | Inr (qn, qt, cd, ed, tg) \<Rightarrow>
          (Inr (), \<lparr> query_data = None, name = Some qn, query = Some qt, columns = Some cd,
                     extras = Some ed, tags = tg \<rparr>))"
  by (cases d) (auto simp: compile_def Query_init_def split: sum.splits)

lemma compile_body_header:
  assumes "py_get d ''name'' = PStr qn" "qn \<noteq> []" "py_get d ''query'' = PStr qt" "qt \<noteq> []"
    "py_get d ''columns'' = PList cols" "cols \<noteq> []"
    "py_get_default d ''tags'' (PList []) = PNone \<or> as_list (py_get_default d ''tags'' (PList [])) \<noteq> None"
  shows "compile_body call cet ct et (PDict d) =
     (case compile_columns call qn ct 1 cols [] [] of
        Inl e \<Rightarrow> Inl e
      | Inr (S, cd) \<Rightarrow>
          if ct ''tag'' = None then Inl (Exn KeyError ''tag'')
          else (case as_list (py_get_default d ''extras'' (PList [])) of
                  None \<Rightarrow> Inl (Exn ValueError (''field `extras` for '' @ qn @ '' must be a list''))
                | Some exs \<Rightarrow>
                    (case compile_extras call cet qn et (ct(''tag'' := None)) 1 exs S [] of
                       Inl e \<Rightarrow> Inl e
                     | Inr (S', ed) \<Rightarrow> Inr (qn, qt, cd, ed, py_get_default d ''tags'' (PList [])))))"
  using assms by (auto simp: compile_body_def Let_def split: sum.splits option.splits)

lemma compile_body_Inr_header:
  assumes "compile_body call cet ct et (PDict d) = Inr r"
  shows "\<exists>qn qt cols. py_get d ''name'' = PStr qn \<and> qn \<noteq> [] \<and> py_get d ''query'' = PStr qt \<and> qt \<noteq> []
     \<and> py_get d ''columns'' = PList cols \<and> cols \<noteq> []
     \<and> (py_get_default d ''tags'' (PList []) = PNone \<or> as_list (py_get_default d ''tags'' (PList [])) \<noteq> None)"
  using assms
  by (auto simp: compile_body_def Let_def as_str_Some as_list_Some split: if_splits option.splits)

lemma compile_success_body:
  "fst (compile call effect cet ct et (Query_init (PDict d))) = Inr () \<Longrightarrow> \<exists>r. compile_body call cet ct et (PDict d) = Inr r"
  by (auto simp: compile_fresh split: sum.splits)

lemma compile_body_Inr_parts:
  assumes "compile_body call cet ct et (PDict d) = Inr (qn, qt, cd, ed, tg)"
  shows "\<exists>S S'. compile_columns call qn ct 1 (config_columns d) [] [] = Inr (S, cd)
           \<and> py_get d ''columns'' = PList (config_columns d)
           \<and> ct ''tag'' \<noteq> None
           \<and> compile_extras call cet qn et (ct(''tag'' := None)) 1 (config_extras d) S [] = Inr (S', ed)"
  using assms
  by (auto simp: compile_body_def Let_def as_str_Some as_list_Some config_columns_def
        config_extras_def split: if_splits option.splits sum.splits)

text \<open>
  The probes agree with the compiler: \<open>column_factory_call\<close> names a call exactly when
  the iteration passes every check before the call, and where it names none the iteration
  does not depend on \<open>call\<close>; \<open>loops_reached\<close> holds exactly the checks that come
  before the column loop.
\<close>

lemma column_factory_call_SomeD:
  assumes "column_factory_call ct S c = Some (f, n, m)"
  shows "\<exists>d ty. c = PDict d \<and> py_get d ''name'' = PStr n \<and> n \<noteq> [] \<and> map_of S n = None
           \<and> py_get d ''type'' = PStr ty \<and> ty \<noteq> [] \<and> ty \<noteq> ''source'' \<and> ct ty = Some f
           \<and> m = without_keys [''name'', ''type''] d"
  using assms
  by (cases c)
     (auto simp: column_factory_call_def compile_column_def Let_def as_str_Some
           split: if_splits option.splits sum.splits prod.splits)

lemma column_factory_call_None:
  assumes "column_factory_call ct S c = None"
  shows "compile_column call qn ct i S c = compile_column call' qn ct i S c"
  using assms
  by (auto simp: column_factory_call_def compile_column_def Let_def
           split: if_splits option.splits sum.splits prod.splits)

lemma loops_reached_SomeD:
  assumes "loops_reached d = Some (qn, cols)"
  shows "\<exists>qt. py_get d ''name'' = PStr qn \<and> qn \<noteq> [] \<and> py_get d ''query'' = PStr qt \<and> qt \<noteq> []
           \<and> py_get d ''columns'' = PList cols \<and> cols \<noteq> []
           \<and> (py_get_default d ''tags'' (PList []) = PNone
                \<or> as_list (py_get_default d ''tags'' (PList [])) \<noteq> None)"
  using assms
  by (auto simp: loops_reached_def as_str_Some as_list_Some split: option.splits if_splits)

lemma loops_reached_None:
  assumes "loops_reached d = None"
  shows "\<exists>e. compile_body call cet ct et (PDict d) = Inl e"
  using assms
  by (auto simp: loops_reached_def compile_body_def Let_def as_str_Some as_list_Some
           split: option.splits if_splits)

lemma truncate_lookups:
  "py_get (truncate_config d j) ''name'' = py_get d ''name''"
  "py_get (truncate_config d j) ''query'' = py_get d ''query''"
  "py_get (truncate_config d j) ''columns'' = PList (take j (config_columns d))"
  "py_get_default (truncate_config d j) ''tags'' dflt = py_get_default d ''tags'' dflt"
  "py_get_default (truncate_config d j) ''extras'' dflt
     = PList (take (j - length (config_columns d)) (config_extras d))"
  by (simp_all add: truncate_config_def py_get_update py_get_default_update)

lemma config_columns_nonempty:
  "config_columns d \<noteq> [] \<Longrightarrow> py_get d ''columns'' = PList (config_columns d)"
  by (auto simp: config_columns_def as_list_Some split: option.splits)

lemma config_extras_nonempty:
  "config_extras d \<noteq> [] \<Longrightarrow> py_get_default d ''extras'' (PList []) = PList (config_extras d)"
  by (auto simp: config_extras_def as_list_Some split: option.splits)

lemma table_lookup:
  "distinct (map fst S) \<Longrightarrow> (n, v) \<in> set S \<Longrightarrow> map_of S n = Some v"
  by simp

subsection \<open>Duplicate names\<close>

lemma duplicate_reported:
  assumes j: "j < length (config_entries d)"
    and dj: "declared_name (config_entries d ! j) = Some n"
    and ij: "i < j"
    and di: "declared_name (config_entries d ! i) = Some n"
    and ok: "fst (compile call effect cet ct et (Query_init (PDict (truncate_config d j)))) = Inr ()"
  shows "\<exists>qn. py_get d ''name'' = PStr qn
           \<and> fst (compile call effect cet ct et (Query_init (PDict d)))
               = Inl (already_defined n qn (entry_kind d i) (entry_index d i))"
proof -
  let ?cols = "config_columns d" and ?exs = "config_extras d"
  let ?T = "truncate_config d j"
  let ?j' = "j - length ?cols"
  let ?st = "ct(''tag'' := None)"
  from ok obtain r where r: "compile_body call cet ct et (PDict ?T) = Inr r"
    using compile_success_body by blast
  from compile_body_Inr_header[OF r] obtain qn qt where
    hd: "py_get d ''name'' = PStr qn" "qn \<noteq> []" "py_get d ''query'' = PStr qt" "qt \<noteq> []"
    and tk: "take j ?cols \<noteq> []"
    and tg: "py_get_default d ''tags'' (PList []) = PNone
             \<or> as_list (py_get_default d ''tags'' (PList [])) \<noteq> None"
    by (auto simp: truncate_lookups)
  from tk have ne: "?cols \<noteq> []" by auto
  then have cl: "py_get d ''columns'' = PList ?cols" by (rule config_columns_nonempty)
  have hdT: "py_get ?T ''name'' = PStr qn" "py_get ?T ''query'' = PStr qt"
    "py_get ?T ''columns'' = PList (take j ?cols)"
    "py_get_default ?T ''tags'' (PList []) = PNone
       \<or> as_list (py_get_default ?T ''tags'' (PList [])) \<noteq> None"
    using hd tg by (simp_all add: truncate_lookups)
  from r compile_body_header[OF hdT(1) hd(2) hdT(2) hd(4) hdT(3) tk hdT(4), of call cet ct et]
  obtain S cd S2 ed where
    pc: "compile_columns call qn ct 1 (take j ?cols) [] [] = Inr (S, cd)"
    and tag: "ct ''tag'' \<noteq> None"
    and pe: "compile_extras call cet qn et ?st 1 (take ?j' ?exs) S [] = Inr (S2, ed)"
    by (auto simp: truncate_lookups split: sum.splits if_splits)
  have S: "S = decls ''column'' 1 (take j ?cols)" and dS: "distinct (map fst S)"
    using compile_columns_Inr(1,2)[OF pc] by simp_all
  have S2: "S2 = S @ decls ''extra'' 1 (take ?j' ?exs)" and dS2: "distinct (map fst S2)"
    using compile_extras_Inr(1,2)[OF pe] dS by simp_all
  note body = compile_body_header[OF hd cl ne tg, of call cet ct et]
  show ?thesis
  proof (cases "j < length ?cols")
    case True
    with ij have i: "i < length ?cols" by simp
    from True dj have dj': "declared_name (?cols ! j) = Some n"
      by (simp add: config_entries_def nth_append)
    from i di have di': "declared_name (?cols ! i) = Some n"
      by (simp add: config_entries_def nth_append)
    from True ij di' have "(n, (''column'', 1 + i)) \<in> set (decls ''column'' 1 (take j ?cols))"
      by (intro decls_member) simp_all
    with S dS have look: "map_of S n = Some (''column'', Suc i)"
      by (simp add: table_lookup)
    have split: "?cols = take j ?cols @ ?cols ! j # drop (Suc j) ?cols"
      using True by (simp add: id_take_nth_drop)
    have "compile_columns call qn ct 1 ?cols [] []
            = compile_columns call qn ct 1 (take j ?cols @ ?cols ! j # drop (Suc j) ?cols) [] []"
      using split by simp
    also have "\<dots> = Inl (already_defined n qn ''column'' (Suc i))"
      using pc by (simp add: compile_columns_append compile_column_duplicate[OF dj' look])
    finally have "compile_body call cet ct et (PDict d) = Inl (already_defined n qn ''column'' (Suc i))"
      using body by simp
    with hd(1) i show ?thesis
      by (simp add: compile_fresh entry_kind_def entry_index_def)
  next
    case False
    then have full: "take j ?cols = ?cols" by simp
    from False j have j': "?j' < length ?exs" by (simp add: config_entries_def)
    then have "?exs \<noteq> []" by auto
    then have el: "py_get_default d ''extras'' (PList []) = PList ?exs"
      by (rule config_extras_nonempty)
    from False j' dj have dj': "declared_name (?exs ! ?j') = Some n"
      by (simp add: config_entries_def nth_append)
    have "(n, (entry_kind d i, entry_index d i)) \<in> set S2"
    proof (cases "i < length ?cols")
      case True
      with di have "declared_name (?cols ! i) = Some n"
        by (simp add: config_entries_def nth_append)
      with True have "(n, (''column'', 1 + i)) \<in> set (decls ''column'' 1 ?cols)"
        by (intro decls_member) simp_all
      with S S2 full True show ?thesis by (simp add: entry_kind_def entry_index_def)
    next
      case F: False
      let ?i' = "i - length ?cols"
      from F ij False have i': "?i' < ?j'" by simp
      from F di i' j' have "declared_name (?exs ! ?i') = Some n"
        by (simp add: config_entries_def nth_append)
      with i' j' have "(n, (''extra'', 1 + ?i')) \<in> set (decls ''extra'' 1 (take ?j' ?exs))"
        by (intro decls_member) simp_all
      with S2 F show ?thesis by (simp add: entry_kind_def entry_index_def)
    qed
    with dS2 have look: "map_of S2 n = Some (entry_kind d i, entry_index d i)"
      by (rule table_lookup)
    have split: "?exs = take ?j' ?exs @ ?exs ! ?j' # drop (Suc ?j') ?exs"
      using j' by (simp add: id_take_nth_drop)
    have "compile_extras call cet qn et ?st 1 ?exs S []
            = compile_extras call cet qn et ?st 1
                (take ?j' ?exs @ ?exs ! ?j' # drop (Suc ?j') ?exs) S []"
      using split by simp
    also have "\<dots> = Inl (already_defined n qn (entry_kind d i) (entry_index d i))"
      using pe by (simp add: compile_extras_append compile_extra_duplicate[OF dj' look])
    finally have ex: "compile_extras call cet qn et ?st 1 ?exs S []
        = Inl (already_defined n qn (entry_kind d i) (entry_index d i))" .
    from pc full have pc': "compile_columns call qn ct 1 ?cols [] [] = Inr (S, cd)" by simp
    have "compile_body call cet ct et (PDict d)
        = Inl (already_defined n qn (entry_kind d i) (entry_index d i))"
      unfolding body pc' el using tag ex by auto
    with hd(1) show ?thesis by (simp add: compile_fresh)
  qed
qed


lemma entry_member:
  assumes "p < length (config_entries d)" "declared_name (config_entries d ! p) = Some n"
  shows "(n, (entry_kind d p, entry_index d p))
           \<in> set (decls ''column'' 1 (config_columns d) @ decls ''extra'' 1 (config_extras d))"
proof (cases "p < length (config_columns d)")
  case True
  with assms(2) have "declared_name (config_columns d ! p) = Some n"
    by (simp add: config_entries_def nth_append)
  with True have "(n, (''column'', 1 + p)) \<in> set (decls ''column'' 1 (config_columns d))"
    by (intro decls_member) simp_all
  with True show ?thesis by (simp add: entry_kind_def entry_index_def)
next
  case False
  let ?p' = "p - length (config_columns d)"
  from False assms(1) have p': "?p' < length (config_extras d)"
    by (simp add: config_entries_def)
  from False assms(2) have "declared_name (config_extras d ! ?p') = Some n"
    by (simp add: config_entries_def nth_append)
  with p' have "(n, (''extra'', 1 + ?p')) \<in> set (decls ''extra'' 1 (config_extras d))"
    by (intro decls_member) simp_all
  with False show ?thesis by (simp add: entry_kind_def entry_index_def)
qed

lemma entry_position_inj:
  assumes "i < j"
  shows "(entry_kind d i, entry_index d i) \<noteq> (entry_kind d j, entry_index d j)"
  using assms by (auto simp: entry_kind_def entry_index_def split: if_splits)

lemma duplicate_never_compiles:
  assumes j: "j < length (config_entries d)"
    and dj: "declared_name (config_entries d ! j) = Some n"
    and ij: "i < j"
    and di: "declared_name (config_entries d ! i) = Some n"
  shows "\<exists>e. fst (compile call effect cet ct et (Query_init (PDict d))) = Inl e"
proof (cases "fst (compile call effect cet ct et (Query_init (PDict d)))")
  case (Inl e)
  then show ?thesis by blast
next
  case (Inr u)
  then obtain qn qt cd ed tg where
    body: "compile_body call cet ct et (PDict d) = Inr (qn, qt, cd, ed, tg)"
    by (auto simp: compile_fresh split: sum.splits)
  from compile_body_Inr_parts[OF body] obtain S S' where
    pc: "compile_columns call qn ct 1 (config_columns d) [] [] = Inr (S, cd)"
    and pe: "compile_extras call cet qn et (ct(''tag'' := None)) 1 (config_extras d) S []
               = Inr (S', ed)"
    by blast
  have S: "S = decls ''column'' 1 (config_columns d)" and dS: "distinct (map fst S)"
    using compile_columns_Inr(1,2)[OF pc] by simp_all
  have S': "S' = S @ decls ''extra'' 1 (config_extras d)" and dS': "distinct (map fst S')"
    using compile_extras_Inr(1,2)[OF pe] dS by simp_all
  from ij j have i: "i < length (config_entries d)" by simp
  from entry_member[OF i di] S S'
  have "map_of S' n = Some (entry_kind d i, entry_index d i)"
    using dS' by (intro table_lookup) simp_all
  moreover from entry_member[OF j dj] S S'
  have "map_of S' n = Some (entry_kind d j, entry_index d j)"
    using dS' by (intro table_lookup) simp_all
  ultimately show ?thesis using entry_position_inj[OF ij, of d] by simp
qed

text \<open>
  C1, as amended. Take two entries of a configuration (columns first, then extras, in
  order) that declare the same name \<open>n\<close>, at positions \<open>i < j\<close>. Then \<^verbatim>\<open>compile\<close>
  raises an error. If the configuration cut off just before entry \<open>j\<close> compiles, that is,
  if no check before the duplicate check of entry \<open>j\<close> fails, the error is the
  \<^verbatim>\<open>ValueError\<close> \<^verbatim>\<open>the name n of <query> was already defined in <kind> #<index>\<close>,
  where kind and index are those of entry \<open>i\<close>: \<^verbatim>\<open>column\<close> or \<^verbatim>\<open>extra\<close>, and its
  1-based position among the columns or among the extras. This covers column/column,
  column/extra and extra/extra.
\<close>

theorem duplicate_name_error:
  assumes "j < length (config_entries d)"
    and "declared_name (config_entries d ! j) = Some n"
    and "i < j"
    and "declared_name (config_entries d ! i) = Some n"
  shows "(\<exists>e. fst (compile call effect cet ct et (Query_init (PDict d))) = Inl e)
     \<and> (fst (compile call effect cet ct et (Query_init (PDict (truncate_config d j)))) = Inr ()
          \<longrightarrow> (\<exists>qn. py_get d ''name'' = PStr qn
                 \<and> fst (compile call effect cet ct et (Query_init (PDict d)))
                     = Inl (already_defined n qn (entry_kind d i) (entry_index d i))))"
  using duplicate_never_compiles[OF assms] duplicate_reported[OF assms] by blast

theorem duplicate_name_error_witness:
  "declared_name (config_entries duplicate_config ! 0) = Some ''cpu''
   \<and> declared_name (config_entries duplicate_config ! 1) = Some ''cpu''
   \<and> fst (compile submission_factory submission_effect create_extra_transformer example_columns Map.empty
             (Query_init (PDict (truncate_config duplicate_config 1)))) = Inr ()
   \<and> fst (compile submission_factory submission_effect create_extra_transformer example_columns Map.empty
             (Query_init (PDict duplicate_config)))
       = Inl (Exn ValueError ''the name cpu of q was already defined in column #1'')"
proof -
  have j: "1 < length (config_entries duplicate_config)"
    by (simp add: config_eval duplicate_config_def py_get_def py_get_default_def)
  have d0: "declared_name (config_entries duplicate_config ! 0) = Some ''cpu''"
    and d1: "declared_name (config_entries duplicate_config ! 1) = Some ''cpu''"
    by (simp_all add: config_eval duplicate_config_def py_get_def py_get_default_def)
  have ok: "fst (compile submission_factory submission_effect create_extra_transformer example_columns Map.empty
             (Query_init (PDict (truncate_config duplicate_config 1)))) = Inr ()"
    by (simp add: compile_eval config_eval duplicate_config_def)
  from duplicate_name_error[OF j d1 _ d0, where call = submission_factory
      and effect = submission_effect and cet = create_extra_transformer
      and ct = example_columns and et = Map.empty] d0 d1 ok show ?thesis
    by (simp add: config_eval already_defined_def duplicate_config_def py_get_def py_get_default_def)
qed

text \<open>
  C1 as stated fails: when an earlier check fails, that error is raised and the duplicate is
  never reported. Here the first and the third column are both named \<^verbatim>\<open>cpu\<close> and the
  second column is the number 5; the error raised names neither \<^verbatim>\<open>cpu\<close> nor column 1.
\<close>

theorem duplicate_name_preempted:
  "declared_name (config_entries preempted_config ! 0) = Some ''cpu''
   \<and> declared_name (config_entries preempted_config ! 2) = Some ''cpu''
   \<and> fst (compile submission_factory submission_effect create_extra_transformer example_columns Map.empty
             (Query_init (PDict preempted_config)))
       = Inl (Exn ValueError ''column #2 of q is not a mapping'')"
  by (simp add: compile_eval config_eval preempted_config_def)

subsection \<open>Compiling twice\<close>

text \<open>
  C2. Once \<^verbatim>\<open>compile\<close> has succeeded on a Query (\<open>q'\<close> is the instance it left), a second
  call, with any registries and any adapter, returns without raising and leaves the instance
  as it is: \<^verbatim>\<open>name\<close>, \<^verbatim>\<open>query\<close>, \<^verbatim>\<open>columns\<close>, \<^verbatim>\<open>extras\<close> and \<^verbatim>\<open>tags\<close> keep the
  values of the first call.
\<close>

theorem compile_again_is_noop:
  assumes "compile call effect cet column_transformers extra_transformers q = (Inr (), q')"
  shows "compile call' effect' cet' column_transformers' extra_transformers' q' = (Inr (), q')"
proof (cases "name q")
  case (Some n)
  with assms have "q' = q" by (simp add: compile_def)
  with Some show ?thesis by (simp add: compile_def)
next
  case None
  with assms have "name q' \<noteq> None"
    by (auto simp: compile_def split: option.splits sum.splits prod.splits)
  then show ?thesis by (simp add: compile_def)
qed

theorem compile_again_is_noop_witness:
  "fst (compile submission_factory submission_effect create_extra_transformer example_columns Map.empty
          (Query_init (PDict example_config))) = Inr ()
   \<and> compile submission_factory submission_effect create_extra_transformer Map.empty Map.empty
        (snd (compile submission_factory submission_effect create_extra_transformer example_columns Map.empty
                (Query_init (PDict example_config))))
     = (Inr (), snd (compile submission_factory submission_effect create_extra_transformer example_columns
                       Map.empty (Query_init (PDict example_config))))"
proof -
  let ?r = "compile submission_factory submission_effect create_extra_transformer example_columns Map.empty
              (Query_init (PDict example_config))"
  have ok: "fst ?r = Inr ()" by (rule example_compiles)
  then have "?r = (Inr (), snd ?r)" by (metis prod.collapse)
  from compile_again_is_noop [OF this] ok show ?thesis by simp
qed

subsection \<open>A failed compilation\<close>




subsection \<open>The \<^verbatim>\<open>source\<close> of an extra\<close>

text \<open>
  C4, as amended. When \<^verbatim>\<open>compile\<close> succeeds, every extra entry whose type resolves to a
  submission transformer (a key of the column registry other than \<^verbatim>\<open>tag\<close>) has a truthy
  \<^verbatim>\<open>source\<close> field; so compilation fails unless such an entry has one. Whether the
  \<^verbatim>\<open>source\<close> names a declared source is not checked.
\<close>

theorem submission_extra_needs_source:
  assumes ok: "fst (compile call effect cet ct et (Query_init (PDict d))) = Inr ()"
    and k: "k < length (config_extras d)" and x: "config_extras d ! k = PDict x"
    and ty: "extra_type_of x = Some ty" "ty \<noteq> ''tag''" "ct ty \<noteq> None"
  shows "truthy (py_get x ''source'')"
proof -
  from ok obtain qn qt cd ed tg where
    body: "compile_body call cet ct et (PDict d) = Inr (qn, qt, cd, ed, tg)"
    by (auto simp: compile_fresh split: sum.splits)
  from compile_body_Inr_parts[OF body] obtain S S' where
    loop: "compile_extras call cet qn et (ct(''tag'' := None)) 1 (config_extras d) S [] = Inr (S', ed)"
    by blast
  from compile_extras_Inr(3)[OF loop k] x obtain Sk r where
    "compile_extra call cet qn et (ct(''tag'' := None)) (1 + k) Sk (PDict x) = Inr r"
    by auto
  then obtain S'' e where
    st: "compile_extra call cet qn et (ct(''tag'' := None)) (1 + k) Sk (PDict x) = Inr (S'', e)"
    by (cases r) auto
  from ty have "(ct(''tag'' := None)) ty \<noteq> None" by simp
  with compile_extra_source[OF st ty(1)] show ?thesis by blast
qed

theorem submission_extra_needs_source_witness:
  "fst (compile submission_factory submission_effect create_extra_transformer example_columns Map.empty
          (Query_init (PDict example_config))) = Inr ()
   \<and> config_extras example_config ! 0
       = PDict [(''name'', PStr ''e''), (''type'', PStr ''gauge''), (''source'', PStr ''a'')]
   \<and> truthy (py_get [(''name'', PStr ''e''), (''type'', PStr ''gauge''), (''source'', PStr ''a'')]
               ''source'')"
proof -
  have k: "0 < length (config_extras example_config)"
    and x: "config_extras example_config ! 0
       = PDict [(''name'', PStr ''e''), (''type'', PStr ''gauge''), (''source'', PStr ''a'')]"
    by (simp_all add: config_eval example_config_def py_get_def py_get_default_def)
  have ty: "extra_type_of [(''name'', PStr ''e''), (''type'', PStr ''gauge''), (''source'', PStr ''a'')]
              = Some ''gauge''" "''gauge'' \<noteq> ''tag''" "example_columns ''gauge'' \<noteq> None"
    by (simp_all add: config_eval example_columns_def py_get_def py_get_default_def)
  from submission_extra_needs_source[OF example_compiles k x ty] example_compiles x
  show ?thesis by blast
qed

text \<open>
  C4 as stated fails: the extra \<^verbatim>\<open>load\<close> has the submission type \<^verbatim>\<open>gauge\<close> and the
  \<^verbatim>\<open>source\<close> \<^verbatim>\<open>nope\<close>, which no column and no extra declares, and the configuration
  compiles.
\<close>

theorem undeclared_source_compiles:
  "config_extras undeclared_source_config
     = [PDict [(''name'', PStr ''load''), (''type'', PStr ''gauge''), (''source'', PStr ''nope'')]]
   \<and> (example_columns(''tag'' := None)) ''gauge'' = Some ''gauge''
   \<and> map_of (decls ''column'' 1 (config_columns undeclared_source_config)
              @ decls ''extra'' 1 (config_extras undeclared_source_config)) ''nope'' = None
   \<and> fst (compile submission_factory submission_effect create_extra_transformer example_columns Map.empty
             (Query_init (PDict undeclared_source_config))) = Inr ()"
  by (simp add: compile_eval config_eval undeclared_source_config_def)

subsection \<open>Ignored columns\<close>

text \<open>
  C9. For a falsy entry at the 1-based position \<open>i + 1\<close> of a column list: the loop's step
  on that entry succeeds whatever the Source Table and the registry are, appends
  \<^verbatim>\<open>(None, None)\<close> and leaves the table as it was; when the column loop completes, the
  entry of \<^verbatim>\<open>column_data\<close> at that position is \<^verbatim>\<open>(None, None)\<close> and no name of the table
  is recorded as defined by column \<open>i + 1\<close>; and when \<^verbatim>\<open>compile\<close> succeeds,
  \<^verbatim>\<open>columns[i]\<close> of the instance is \<^verbatim>\<open>(None, None)\<close>.
\<close>

theorem falsy_column_is_placeholder:
  assumes i: "i < length cols" and falsy: "\<not> truthy (cols ! i)"
  shows "compile_column call qn ct (Suc i) sources (cols ! i) = Inr (sources, (None, None))
     \<and> (compile_columns call qn ct 1 cols [] [] = Inr (S, cd)
          \<longrightarrow> cd ! i = (None, None) \<and> (\<forall>n. map_of S n \<noteq> Some (''column'', Suc i)))
     \<and> (py_get d ''columns'' = PList cols
          \<and> compile call effect cet ct et (Query_init (PDict d)) = (Inr (), q')
          \<longrightarrow> (\<exists>cd. columns q' = Some cd \<and> length cd = length cols \<and> cd ! i = (None, None)))"
proof (intro conjI impI)
  show "compile_column call qn ct (Suc i) sources (cols ! i) = Inr (sources, (None, None))"
    using falsy by (rule compile_column_falsy)
next
  assume loop: "compile_columns call qn ct 1 cols [] [] = Inr (S, cd)"
  from compile_columns_Inr(4)[OF loop i falsy] show "cd ! i = (None, None)" by simp
  show "\<forall>n. map_of S n \<noteq> Some (''column'', Suc i)"
  proof
    fix n
    show "map_of S n \<noteq> Some (''column'', Suc i)"
    proof
      assume "map_of S n = Some (''column'', Suc i)"
      then have "(n, (''column'', Suc i)) \<in> set S" by (rule map_of_SomeD)
      with compile_columns_Inr(1)[OF loop]
      have "(n, (''column'', Suc i)) \<in> set (decls ''column'' 1 cols)" by simp
      from decls_keys_fresh[OF this] have "declared_name (cols ! i) = Some n" by auto
      with falsy show False by (simp add: falsy_declares_nothing)
    qed
  qed
next
  assume a: "py_get d ''columns'' = PList cols
     \<and> compile call effect cet ct et (Query_init (PDict d)) = (Inr (), q')"
  then obtain qn' qt cd' ed tg where
    body: "compile_body call cet ct et (PDict d) = Inr (qn', qt, cd', ed, tg)"
    and q': "columns q' = Some cd'"
    by (auto simp: compile_fresh split: sum.splits)
  from compile_body_Inr_parts[OF body] a obtain S' where
    loop: "compile_columns call qn' ct 1 cols [] [] = Inr (S', cd')"
    by auto
  from compile_columns_Inr(3,4)[OF loop] i falsy q'
  show "\<exists>cd. columns q' = Some cd \<and> length cd = length cols \<and> cd ! i = (None, None)"
    by simp
qed

theorem falsy_column_is_placeholder_witness:
  "\<not> truthy (config_columns example_config ! 1)
   \<and> compile_column submission_factory ''q'' example_columns 2 [] (config_columns example_config ! 1)
       = Inr ([], (None, None))
   \<and> (\<exists>cd. columns (snd (compile submission_factory submission_effect create_extra_transformer example_columns
                            Map.empty (Query_init (PDict example_config)))) = Some cd
            \<and> length cd = 3 \<and> cd ! 1 = (None, None))"
proof -
  let ?cols = "config_columns example_config"
  let ?r = "compile submission_factory submission_effect create_extra_transformer example_columns Map.empty
              (Query_init (PDict example_config))"
  have i: "1 < length ?cols" and f: "\<not> truthy (?cols ! 1)" and len: "length ?cols = 3"
    and c: "py_get example_config ''columns'' = PList ?cols"
    by (simp_all add: config_eval example_config_def py_get_def py_get_default_def)
  have r: "?r = (Inr (), snd ?r)" using example_compiles by (metis prod.collapse)
  from falsy_column_is_placeholder[OF i f, where call = submission_factory and qn = "''q''"
      and ct = example_columns and sources = "[]" and d = example_config
      and effect = submission_effect and cet = create_extra_transformer and et = Map.empty
      and q' = "snd ?r"] c r f len
  show ?thesis by (simp add: numeral_2_eq_2)
qed

subsection \<open>The \<^verbatim>\<open>tags\<close> field\<close>

text \<open>
  C10. Take a configuration that compiles when its \<^verbatim>\<open>tags\<close> field is a list. With
  \<^verbatim>\<open>tags\<close> set to \<^verbatim>\<open>None\<close> instead it compiles to the same instance except that the
  attribute \<^verbatim>\<open>tags\<close> is \<^verbatim>\<open>None\<close> (not the list, and not the empty list); with
  \<^verbatim>\<open>tags\<close> set to any other value that is not a list, \<^verbatim>\<open>compile\<close> raises the
  \<^verbatim>\<open>ValueError\<close> \<^verbatim>\<open>field `tags` for <query> must be a list\<close>.
\<close>

theorem tags_none_or_list:
  assumes "compile call effect cet column_transformers extra_transformers
             (Query_init (PDict (AList.update ''tags'' (PList ts) d))) = (Inr (), q1)"
  shows "tags q1 = PList ts
     \<and> compile call effect cet column_transformers extra_transformers
         (Query_init (PDict (AList.update ''tags'' PNone d))) = (Inr (), q1\<lparr>tags := PNone\<rparr>)
     \<and> (v \<noteq> PNone \<and> as_list v = None \<longrightarrow>
          (\<exists>qn. name q1 = Some qn
            \<and> fst (compile call effect cet column_transformers extra_transformers
                     (Query_init (PDict (AList.update ''tags'' v d))))
                = Inl (Exn ValueError (''field `tags` for '' @ qn @ '' must be a list''))))"
  using assms
  by (auto simp: compile_def compile_body_def Query_init_def truthy_update py_get_update
        py_get_default_update Let_def
      split: if_splits option.splits sum.splits prod.splits)

theorem tags_none_or_list_witness:
  "fst (compile submission_factory submission_effect create_extra_transformer example_columns Map.empty
          (Query_init (PDict (AList.update ''tags'' (PList []) example_config)))) = Inr ()
   \<and> fst (compile submission_factory submission_effect create_extra_transformer example_columns Map.empty
          (Query_init (PDict (AList.update ''tags'' PNone example_config)))) = Inr ()
   \<and> tags (snd (compile submission_factory submission_effect create_extra_transformer example_columns Map.empty
          (Query_init (PDict (AList.update ''tags'' PNone example_config))))) = PNone
   \<and> fst (compile submission_factory submission_effect create_extra_transformer example_columns Map.empty
          (Query_init (PDict (AList.update ''tags'' (PStr ''env:prod'') example_config))))
       = Inl (Exn ValueError ''field `tags` for q must be a list'')"
proof -
  let ?c = "\<lambda>v. compile submission_factory submission_effect create_extra_transformer example_columns Map.empty
          (Query_init (PDict (AList.update ''tags'' v example_config)))"
  have ok: "fst (?c (PList [])) = Inr ()"
    by (simp add: compile_eval example_config_def)
  then have r: "?c (PList []) = (Inr (), snd (?c (PList [])))" by (metis prod.collapse)
  have n: "name (snd (?c (PList []))) = Some ''q''"
    by (simp add: compile_eval example_config_def)
  have v: "PStr ''env:prod'' \<noteq> PNone \<and> as_list (PStr ''env:prod'') = None" by simp
  from tags_none_or_list[OF r, of "PStr ''env:prod''"] v n ok show ?thesis by simp
qed

section \<open>Properties of the transformers\<close>

subsection \<open>\<^verbatim>\<open>temporal_percent\<close> and its \<^verbatim>\<open>scale\<close>\<close>

text \<open>
  C5, as amended. With \<open>scale\<close> the modifier \<^verbatim>\<open>scale\<close> (\<open>PNone\<close> when it is absent)
  and \<open>r\<close> the result of the factory: the factory raises a \<^verbatim>\<open>ValueError\<close> when
  \<open>scale\<close> is absent or \<^verbatim>\<open>None\<close>, when it is a string whose lower-case form is not a
  unit of the table, and when it is neither a string nor an integer. With a unit of the
  table, or with any integer at all (zero, a negative number or a boolean included), the
  scale is accepted: the factory goes on to build the \<^verbatim>\<open>rate\<close> transformer and fails
  only if that fails.
\<close>

theorem temporal_percent_scale:
  assumes scale: "scale = py_get modifiers ''scale''"
    and r: "r = get_temporal_percent call TIME_UNITS tttp column_name transformers modifiers"
  shows "(scale = PNone \<longrightarrow> r = Inl (Exn ValueError ''the `scale` parameter is required''))
    \<and> (\<forall>unit. scale = PStr unit \<and> map_of TIME_UNITS (py_lower unit) = None \<longrightarrow>
           r = Inl (Exn ValueError (''the `scale` parameter must be one of: ''
                                     @ join '' | '' (sort (map fst TIME_UNITS)))))
    \<and> (scale \<noteq> PNone \<and> as_str scale = None \<and> \<not> is_int scale \<longrightarrow>
           r = Inl (Exn ValueError (''the `scale` parameter must be an integer ''
                                     @ ''representing parts of a second e.g. 1000 for millisecond'')))
    \<and> ((\<exists>unit n. scale = PStr unit \<and> map_of TIME_UNITS (py_lower unit) = Some n
                    \<and> divisor = PInt n)
         \<or> (is_int scale \<and> divisor = scale) \<longrightarrow>
           r = (case transformers ''rate'' of
                  None \<Rightarrow> Inl (Exn KeyError ''rate'')
                | Some rate_factory \<Rightarrow>
                    (case call rate_factory column_name transformers
                            (AList.delete ''scale'' modifiers) of
                       Inl e \<Rightarrow> Inl e
                     | Inr rate \<Rightarrow> Inr (temporal_percent tttp divisor rate))))"
proof (intro conjI impI allI)
  from scale have sc: "py_get modifiers ''scale'' = scale" by simp
  note defs = get_temporal_percent_def sc
  {
  assume "scale = PNone"
  with r show "r = Inl (Exn ValueError ''the `scale` parameter is required'')"
    by (simp add: defs)
  }
  {
  fix unit
  assume "scale = PStr unit \<and> map_of TIME_UNITS (py_lower unit) = None"
  with r show "r = Inl (Exn ValueError (''the `scale` parameter must be one of: ''
                                     @ join '' | '' (sort (map fst TIME_UNITS))))"
    by (simp add: defs)
  }
  {
  assume "scale \<noteq> PNone \<and> as_str scale = None \<and> \<not> is_int scale"
  with r show "r = Inl (Exn ValueError (''the `scale` parameter must be an integer ''
                                     @ ''representing parts of a second e.g. 1000 for millisecond''))"
    by (simp add: defs)
  }
  {
  assume "(\<exists>unit n. scale = PStr unit \<and> map_of TIME_UNITS (py_lower unit) = Some n
                    \<and> divisor = PInt n)
         \<or> (is_int scale \<and> divisor = scale)"
  then show "r = (case transformers ''rate'' of
                  None \<Rightarrow> Inl (Exn KeyError ''rate'')
                | Some rate_factory \<Rightarrow>
                    (case call rate_factory column_name transformers
                            (AList.delete ''scale'' modifiers) of
                       Inl e \<Rightarrow> Inl e
                     | Inr rate \<Rightarrow> Inr (temporal_percent tttp divisor rate)))"
  proof
    assume "\<exists>unit n. scale = PStr unit \<and> map_of TIME_UNITS (py_lower unit) = Some n
                    \<and> divisor = PInt n"
    with r show ?thesis
      by (auto simp: defs split: option.splits sum.splits)
  next
    assume "is_int scale \<and> divisor = scale"
    with r show ?thesis
      by (cases scale) (auto simp: defs split: option.splits sum.splits)
  qed
  }
qed

lemma sorted_units: "sort (map fst example_time_units) = [''microsecond'', ''millisecond'', ''nanosecond'', ''second'']"
  unfolding example_time_units_def by code_simp
lemma units_msg: "join '' | '' (sort (map fst example_time_units)) = ''microsecond | millisecond | nanosecond | second''"
  by (simp add: sorted_units)
lemma low: "py_lower ''SeCond'' = ''second''"
  by (simp add: py_lower_def)

theorem temporal_percent_scale_witness:
  "\<forall>tttp.
     get_temporal_percent submission_factory example_time_units tttp ''cpu_time'' example_columns []
       = Inl (Exn ValueError ''the `scale` parameter is required'')
   \<and> get_temporal_percent submission_factory example_time_units tttp ''cpu_time'' example_columns
         [(''scale'', PStr ''fortnight'')]
       = Inl (Exn ValueError
           ''the `scale` parameter must be one of: microsecond | millisecond | nanosecond | second'')
   \<and> get_temporal_percent submission_factory example_time_units tttp ''cpu_time'' example_columns
         [(''scale'', PFloat 3 (- 1))]
       = Inl (Exn ValueError
           ''the `scale` parameter must be an integer representing parts of a second e.g. 1000 for millisecond'')
   \<and> (\<exists>t. get_temporal_percent submission_factory example_time_units tttp ''cpu_time''
              example_columns [(''scale'', PStr ''Millisecond'')] = Inr t)"
proof (intro allI conjI)
  fix tttp :: "arg \<Rightarrow> pyval \<Rightarrow> exn + arg"
  note th = temporal_percent_scale[OF refl refl, where call = submission_factory
      and TIME_UNITS = example_time_units and tttp = tttp and column_name = "''cpu_time''"
      and transformers = example_columns]
  note ev = py_get_def py_get_default_def
  from th[where modifiers = "[]"]
  show "get_temporal_percent submission_factory example_time_units tttp ''cpu_time''
          example_columns [] = Inl (Exn ValueError ''the `scale` parameter is required'')"
    by (simp add: ev)
  have "map_of example_time_units (py_lower ''fortnight'') = None"
    by (simp add: example_time_units_def py_lower_def)
  with th[where modifiers = "[(''scale'', PStr ''fortnight'')]"]
  show "get_temporal_percent submission_factory example_time_units tttp ''cpu_time''
          example_columns [(''scale'', PStr ''fortnight'')]
       = Inl (Exn ValueError
           ''the `scale` parameter must be one of: microsecond | millisecond | nanosecond | second'')"
    by (simp add: ev units_msg)
  from th[where modifiers = "[(''scale'', PFloat 3 (- 1))]"]
  show "get_temporal_percent submission_factory example_time_units tttp ''cpu_time''
          example_columns [(''scale'', PFloat 3 (- 1))]
       = Inl (Exn ValueError
           ''the `scale` parameter must be an integer representing parts of a second e.g. 1000 for millisecond'')"
    by (simp add: ev)
  have "map_of example_time_units (py_lower ''Millisecond'') = Some 1000"
    by (simp add: example_time_units_def py_lower_def)
  with th[where modifiers = "[(''scale'', PStr ''Millisecond'')]" and divisor = "PInt 1000"]
  show "\<exists>t. get_temporal_percent submission_factory example_time_units tttp ''cpu_time''
              example_columns [(''scale'', PStr ''Millisecond'')] = Inr t"
    by (simp add: ev example_columns_def submission_factory_def)
qed

text \<open>
  C5 as stated fails: the scales \<^verbatim>\<open>0\<close> and \<^verbatim>\<open>-1000\<close> are integers that are not
  positive, and the factory returns a transformer for each.
\<close>

theorem nonpositive_scale_accepted:
  "\<forall>tttp.
     (\<exists>t. get_temporal_percent submission_factory example_time_units tttp ''cpu_time''
             example_columns [(''scale'', PInt 0)] = Inr t)
     \<and> (\<exists>t. get_temporal_percent submission_factory example_time_units tttp ''cpu_time''
             example_columns [(''scale'', PInt (- 1000))] = Inr t)"
  by (simp add: get_temporal_percent_def py_get_def py_get_default_def example_columns_def
        submission_factory_def)

subsection \<open>Substitution of source names\<close>

lemma match_at_longest:
  assumes "sorted (map (\<lambda>s. - int (length s)) alts)" "match_at adv alts text = Some a"
  shows "a \<in> set alts \<and> take (length a) text = a \<and> lookahead_ok (drop (length a) text)
     \<and> (\<forall>b\<in>set alts. take (length b) text = b \<and> lookahead_ok (drop (length b) text)
            \<and> (if adv then b \<noteq> [] else True) \<longrightarrow> length b \<le> length a)"
  using assms
proof (induction alts)
  case Nil
  then show ?case by simp
next
  case (Cons x xs)
  show ?case
  proof (cases "take (length x) text = x \<and> lookahead_ok (drop (length x) text)
                 \<and> (if adv then x \<noteq> [] else True)")
    case True
    with Cons.prems(2) have "a = x" by (auto split: if_splits)
    moreover from Cons.prems(1) have "\<forall>b\<in>set xs. length b \<le> length x" by auto
    ultimately show ?thesis using True by (auto split: if_splits)
  next
    case False
    with Cons.prems(2) have m: "match_at adv xs text = Some a" by (auto split: if_splits)
    from Cons.prems(1) have s: "sorted (map (\<lambda>s. - int (length s)) xs)" by simp
    have "a \<in> set xs \<and> take (length a) text = a \<and> lookahead_ok (drop (length a) text)
     \<and> (\<forall>b\<in>set xs. take (length b) text = b \<and> lookahead_ok (drop (length b) text)
            \<and> (if adv then b \<noteq> [] else True) \<longrightarrow> length b \<le> length a)"
      by (rule Cons.IH[OF s m])
    with False show ?thesis by (auto split: if_splits)
  qed
qed

lemmas sub_eval =
  substitute_sources_def replacement_def lookbehind_ok_def lookahead_ok_def is_quote_def

text \<open>
  C6. With the declared sources \<^verbatim>\<open>cpu\<close> and \<^verbatim>\<open>cpu_total\<close>, in either order of
  declaration, the expression \<^verbatim>\<open>cpu / cpu_total\<close> becomes
  \<^verbatim>\<open>SOURCES["cpu"] / SOURCES["cpu_total"]\<close>: each name is replaced once, and \<^verbatim>\<open>cpu\<close> is
  not replaced inside \<^verbatim>\<open>cpu_total\<close>. The same text is what \<^verbatim>\<open>get_expression\<close> compiles
  when it gets the Source Table of such a query. In general the match at a position is a
  longest one: of all declared names that match there, none is longer than the one
  replaced.
\<close>

theorem substitution_longest_first:
  "substitute_sources [''cpu'', ''cpu_total''] ''cpu / cpu_total''
     = ''SOURCES['' @ [CHR 0x22] @ ''cpu'' @ [CHR 0x22] @ ''] / SOURCES['' @ [CHR 0x22]
       @ ''cpu_total'' @ [CHR 0x22] @ '']''
   \<and> substitute_sources [''cpu_total'', ''cpu''] ''cpu / cpu_total''
     = ''SOURCES['' @ [CHR 0x22] @ ''cpu'' @ [CHR 0x22] @ ''] / SOURCES['' @ [CHR 0x22]
       @ ''cpu_total'' @ [CHR 0x22] @ '']''
   \<and> expression_source
        [(''expression'', PStr ''cpu / cpu_total''),
         (''sources'', sources_value [(''cpu'', ''column'', 1), (''cpu_total'', ''column'', 2),
                                      (''ratio'', ''extra'', 1)])]
     = Inr (''SOURCES['' @ [CHR 0x22] @ ''cpu'' @ [CHR 0x22] @ ''] / SOURCES['' @ [CHR 0x22]
            @ ''cpu_total'' @ [CHR 0x22] @ '']'')
   \<and> (match_at adv (sort_key (\<lambda>s. - int (length s)) names) text = Some a \<longrightarrow>
        a \<in> set names \<and> take (length a) text = a
        \<and> (\<forall>b\<in>set names. take (length b) text = b \<and> lookahead_ok (drop (length b) text)
              \<and> (if adv then b \<noteq> [] else True) \<longrightarrow> length b \<le> length a))"
proof (intro conjI impI)
  show "substitute_sources [''cpu'', ''cpu_total''] ''cpu / cpu_total''
     = ''SOURCES['' @ [CHR 0x22] @ ''cpu'' @ [CHR 0x22] @ ''] / SOURCES['' @ [CHR 0x22]
       @ ''cpu_total'' @ [CHR 0x22] @ '']''"
    by (simp add: sub_eval)
  show "substitute_sources [''cpu_total'', ''cpu''] ''cpu / cpu_total''
     = ''SOURCES['' @ [CHR 0x22] @ ''cpu'' @ [CHR 0x22] @ ''] / SOURCES['' @ [CHR 0x22]
       @ ''cpu_total'' @ [CHR 0x22] @ '']''"
    by (simp add: sub_eval)
  show "expression_source
        [(''expression'', PStr ''cpu / cpu_total''),
         (''sources'', sources_value [(''cpu'', ''column'', 1), (''cpu_total'', ''column'', 2),
                                      (''ratio'', ''extra'', 1)])]
     = Inr (''SOURCES['' @ [CHR 0x22] @ ''cpu'' @ [CHR 0x22] @ ''] / SOURCES['' @ [CHR 0x22]
            @ ''cpu_total'' @ [CHR 0x22] @ '']'')"
    by (simp add: expression_source_def sources_value_def source_names_def py_get_def
          py_get_default_def sub_eval)
next
  assume m: "match_at adv (sort_key (\<lambda>s. - int (length s)) names) text = Some a"
  have "sorted (map (\<lambda>s. - int (length s)) (sort_key (\<lambda>s. - int (length s)) names))"
    by (rule sorted_sort_key)
  from match_at_longest[OF this m]
  show "a \<in> set names" "take (length a) text = a"
    "\<forall>b\<in>set names. take (length b) text = b \<and> lookahead_ok (drop (length b) text)
              \<and> (if adv then b \<noteq> [] else True) \<longrightarrow> length b \<le> length a"
    by simp_all
qed

theorem substitution_longest_first_witness:
  "match_at False (sort_key (\<lambda>s. - int (length s)) [''cpu'', ''cpu_total'']) ''cpu_total * 2''
     = Some ''cpu_total''
   \<and> take (length ''cpu'') ''cpu_total * 2'' = ''cpu''
   \<and> length ''cpu'' \<le> length ''cpu_total''"
proof -
  have m: "match_at False (sort_key (\<lambda>s. - int (length s)) [''cpu'', ''cpu_total''])
             ''cpu_total * 2'' = Some ''cpu_total''"
    by (simp add: sub_eval)
  from substitution_longest_first[of False "[''cpu'', ''cpu_total'']" "''cpu_total * 2''"
        "''cpu_total''"] m
  show ?thesis by simp
qed

subsection \<open>\<^verbatim>\<open>monotonic_gauge\<close>\<close>

text \<open>
  C7. When the factory returns a transformer \<open>t\<close>, it has built a transformer with the
  \<^verbatim>\<open>gauge\<close> factory under the name \<^verbatim>\<open><name>.total\<close> and one with the
  \<^verbatim>\<open>monotonic_count\<close> factory under the name \<^verbatim>\<open><name>.count\<close>, both with the
  modifiers it was given; and a call of \<open>t\<close> with a value calls the gauge with that value
  and the keyword arguments, then, in the state the gauge left, the monotonic count with the
  same value and keyword arguments (an exception of either call propagates), and returns
  \<^verbatim>\<open>None\<close>.
\<close>

theorem monotonic_gauge_composition:
  assumes "get_monotonic_gauge call column_name transformers modifiers = Inr t"
  shows "\<exists>gauge_factory count_factory gauge monotonic_count.
           transformers ''gauge'' = Some gauge_factory
         \<and> call gauge_factory (column_name @ ''.total'') transformers modifiers = Inr gauge
         \<and> transformers ''monotonic_count'' = Some count_factory
         \<and> call count_factory (column_name @ ''.count'') transformers modifiers
             = Inr monotonic_count
         \<and> (\<forall>v rest kwargs s.
               t (v # rest) kwargs s =
                 (case gauge [v] kwargs s of
                    (Inl e, s1) \<Rightarrow> (Inl e, s1)
                  | (Inr _, s1) \<Rightarrow>
                      (case monotonic_count [v] kwargs s1 of
                         (Inl e, s2) \<Rightarrow> (Inl e, s2)
                       | (Inr _, s2) \<Rightarrow> (Inr SNone, s2))))"
  using assms
  by (auto simp: get_monotonic_gauge_def monotonic_gauge_def and_then_def returns_def
           split: option.splits sum.splits prod.splits)

theorem monotonic_gauge_composition_witness:
  "(\<exists>t. get_monotonic_gauge submission_factory ''requests'' example_columns
            [(''tags'', PList [PStr ''env:prod''])] = Inr t
        \<and> t [Value (SInt 7)] [(''tags'', PList [])] []
            = (Inr SNone,
               [(''gauge'', ''requests.total'', [Value (SInt 7)],
                   [(''tags'', PList [PStr ''env:prod''])], [(''tags'', PList [])]),
                (''monotonic_count'', ''requests.count'', [Value (SInt 7)],
                   [(''tags'', PList [PStr ''env:prod''])], [(''tags'', PList [])])]))"
proof -
  obtain t where t: "get_monotonic_gauge submission_factory ''requests'' example_columns
            [(''tags'', PList [PStr ''env:prod''])] = Inr t"
    by (simp add: get_monotonic_gauge_def example_columns_def submission_factory_def)
  from monotonic_gauge_composition[OF t] obtain gauge monotonic_count where
    g: "submission_factory ''gauge'' ''requests.total'' example_columns
          [(''tags'', PList [PStr ''env:prod''])] = Inr gauge"
    and c: "submission_factory ''monotonic_count'' ''requests.count'' example_columns
          [(''tags'', PList [PStr ''env:prod''])] = Inr monotonic_count"
    and run: "\<And>v rest kwargs s. t (v # rest) kwargs s =
                 (case gauge [v] kwargs s of
                    (Inl e, s1) \<Rightarrow> (Inl e, s1)
                  | (Inr _, s1) \<Rightarrow>
                      (case monotonic_count [v] kwargs s1 of
                         (Inl e, s2) \<Rightarrow> (Inl e, s2)
                       | (Inr _, s2) \<Rightarrow> (Inr SNone, s2)))"
    by (auto simp: example_columns_def)
  from g have g': "gauge = (\<lambda>args kwargs log. (Inr SNone, log @ [(''gauge'', ''requests.total'', args,
            [(''tags'', PList [PStr ''env:prod''])], kwargs)]))"
    by (simp add: submission_factory_def)
  from c have c': "monotonic_count = (\<lambda>args kwargs log. (Inr SNone, log @ [(''monotonic_count'',
            ''requests.count'', args, [(''tags'', PList [PStr ''env:prod''])], kwargs)]))"
    by (simp add: submission_factory_def)
  have "t [Value (SInt 7)] [(''tags'', PList [])] []
            = (Inr SNone,
               [(''gauge'', ''requests.total'', [Value (SInt 7)],
                   [(''tags'', PList [PStr ''env:prod''])], [(''tags'', PList [])]),
                (''monotonic_count'', ''requests.count'', [Value (SInt 7)],
                   [(''tags'', PList [PStr ''env:prod''])], [(''tags'', PList [])])])"
    by (simp add: run g' c')
  with t show ?thesis by blast
qed

subsection \<open>\<^verbatim>\<open>match\<close>\<close>

lemma compile_match_loop_keys:
  "compile_match_loop call transformers modifiers gsrc items acc = Inr res
   \<Longrightarrow> fst ` set res = fst ` set acc \<union> fst ` set items"
proof (induction items arbitrary: acc)
  case Nil
  then show ?case by simp
next
  case (Cons kv items)
  obtain k data where kv: "kv = (k, data)" by (cases kv)
  with Cons.prems obtain c where
    "compile_match_loop call transformers modifiers gsrc items (AList.update k c acc) = Inr res"
    by (auto split: sum.splits)
  from Cons.IH[OF this] have "fst ` set res = ({k} \<union> fst ` set acc) \<union> fst ` set items"
    by (simp only: dom_update)
  with kv show ?case by auto
qed

text \<open>
  C8. When \<^verbatim>\<open>get_match\<close> returns a transformer \<open>t\<close>, the items have been compiled, with
  the keys of the \<^verbatim>\<open>items\<close> mapping, and for every row value, source map, keyword
  arguments and state: if the row value is a key of the compiled items, \<open>t\<close> calls that
  item's transformer with the value the source map holds under the item's source name (and
  raises \<^verbatim>\<open>KeyError\<close> when the source map has no such name); if the row value is not a
  key, \<open>t\<close> returns \<^verbatim>\<open>None\<close> and the state is unchanged: nothing is called and nothing
  is raised.
\<close>

theorem match_dispatch:
  assumes "get_match call column_name transformers modifiers = Inr t"
  shows "\<exists>compiled_items item_config.
           compile_match_items call transformers modifiers = Inr compiled_items
         \<and> py_get modifiers ''items'' = PDict item_config
         \<and> fst ` set compiled_items = fst ` set item_config
         \<and> (\<forall>k source transformer m y rest kwargs s.
               map_of compiled_items k = Some (source, transformer) \<and> map_of m source = Some y
               \<longrightarrow> t (Value (SStr k) # Sources m # rest) kwargs s =
                     (case transformer [Value y] kwargs s of
                        (Inl e, s') \<Rightarrow> (Inl e, s')
                      | (Inr _, s') \<Rightarrow> (Inr SNone, s')))
         \<and> (\<forall>k source transformer m rest kwargs s.
               map_of compiled_items k = Some (source, transformer) \<and> map_of m source = None
               \<longrightarrow> t (Value (SStr k) # Sources m # rest) kwargs s = (Inl (Exn KeyError source), s))
         \<and> (\<forall>v m rest kwargs s.
               (\<forall>k. v = SStr k \<longrightarrow> map_of compiled_items k = None)
               \<longrightarrow> t (Value v # Sources m # rest) kwargs s = (Inr SNone, s))"
proof -
  from assms obtain ci where ci: "compile_match_items call transformers modifiers = Inr ci"
    and t: "t = match ci"
    by (auto simp: get_match_def split: sum.splits)
  from ci obtain ic where ic: "py_get modifiers ''items'' = PDict ic"
    and loop: "compile_match_loop call transformers
                 (AList.delete ''source'' (AList.delete ''items'' modifiers))
                 (py_get (AList.delete ''items'' modifiers) ''source'') ic [] = Inr ci"
    by (cases "py_get modifiers ''items''")
       (auto simp: compile_match_items_def Let_def split: if_splits option.splits)
  from compile_match_loop_keys[OF loop] have keys: "fst ` set ci = fst ` set ic" by simp
  have hit: "\<forall>k source transformer m y rest kwargs s.
               map_of ci k = Some (source, transformer) \<and> map_of m source = Some y
               \<longrightarrow> t (Value (SStr k) # Sources m # rest) kwargs s =
                     (case transformer [Value y] kwargs s of
                        (Inl e, s') \<Rightarrow> (Inl e, s')
                      | (Inr _, s') \<Rightarrow> (Inr SNone, s'))"
    by (auto simp: t match_def lookup_item_def subscript_def and_then_def returns_def
             split: prod.splits sum.splits)
  have missing: "\<forall>k source transformer m rest kwargs s.
               map_of ci k = Some (source, transformer) \<and> map_of m source = None
               \<longrightarrow> t (Value (SStr k) # Sources m # rest) kwargs s = (Inl (Exn KeyError source), s)"
    by (simp add: t match_def lookup_item_def subscript_def raises_def)
  have miss: "\<forall>v m rest kwargs s.
               (\<forall>k. v = SStr k \<longrightarrow> map_of ci k = None)
               \<longrightarrow> t (Value v # Sources m # rest) kwargs s = (Inr SNone, s)"
    by (auto simp: t match_def lookup_item_def returns_def split: scalar.splits)
  from ci ic keys hit missing miss show ?thesis by blast
qed

lemma example_match_items:
  "compile_match_items submission_factory example_columns example_match_modifiers
     = Inr [(''OK'', ''status'', ok_count)]"
  by (simp add: compile_match_items_def compile_match_item_def example_match_modifiers_def
        py_get_def py_get_default_def example_columns_def submission_factory_def py_update_def
        ok_count_def)

theorem match_dispatch_witness:
  "\<exists>t. get_match submission_factory ''state'' example_columns example_match_modifiers = Inr t
      \<and> t [Value (SStr ''OK''), Sources [(''status'', SInt 3)]] [] []
          = (Inr SNone, [(''monotonic_count'', ''ok_count'', [Value (SInt 3)], [], [])])
      \<and> t [Value (SStr ''FAILED''), Sources [(''status'', SInt 3)]] [] [] = (Inr SNone, [])
      \<and> t [Value (SInt 3), Sources [(''status'', SInt 3)]] [] [] = (Inr SNone, [])"
proof -
  let ?ci = "[(''OK'', ''status'', ok_count)]"
  let ?m = "[(''status'', SInt 3)]"
  obtain t where t: "get_match submission_factory ''state'' example_columns
                       example_match_modifiers = Inr t"
    by (simp add: get_match_def example_match_items)
  from match_dispatch[OF t] show ?thesis
  proof (elim exE conjE)
  fix ci ic
  assume ci: "compile_match_items submission_factory example_columns example_match_modifiers
                = Inr ci"
    and hit: "\<forall>k source transformer m y rest kwargs s.
               map_of ci k = Some (source, transformer) \<and> map_of m source = Some y
               \<longrightarrow> t (Value (SStr k) # Sources m # rest) kwargs s =
                     (case transformer [Value y] kwargs s of
                        (Inl e, s') \<Rightarrow> (Inl e, s')
                      | (Inr _, s') \<Rightarrow> (Inr SNone, s'))"
    and miss: "\<forall>v m rest kwargs s.
               (\<forall>k. v = SStr k \<longrightarrow> map_of ci k = None)
               \<longrightarrow> t (Value v # Sources m # rest) kwargs s = (Inr SNone, s)"
  from ci have ci': "ci = ?ci" by (simp add: example_match_items)
  have "map_of ci ''OK'' = Some (''status'', ok_count) \<and> map_of ?m ''status'' = Some (SInt 3)"
    by (simp add: ci')
  with hit [rule_format, of "''OK''" "''status''" ok_count ?m "SInt 3" "[]" "[]" "[]"]
  have "t (Value (SStr ''OK'') # Sources ?m # []) [] []
      = (case ok_count [Value (SInt 3)] [] [] of
           (Inl e, s') \<Rightarrow> (Inl e, s') | (Inr _, s') \<Rightarrow> (Inr SNone, s'))"
    by simp
  then have a: "t [Value (SStr ''OK''), Sources ?m] [] []
          = (Inr SNone, [(''monotonic_count'', ''ok_count'', [Value (SInt 3)], [], [])])"
    by (simp add: ok_count_def)
  have "\<forall>k. SStr ''FAILED'' = SStr k \<longrightarrow> map_of ci k = None" by (simp add: ci')
  with miss [rule_format, of "SStr ''FAILED''" ?m "[]" "[]" "[]"]
  have b: "t (Value (SStr ''FAILED'') # Sources ?m # []) [] [] = (Inr SNone, [])"
    by simp
  have "\<forall>k. SInt 3 = SStr k \<longrightarrow> map_of ci k = None" by simp
  with miss [rule_format, of "SInt 3" ?m "[]" "[]" "[]"]
  have c: "t (Value (SInt 3) # Sources ?m # []) [] [] = (Inr SNone, [])"
    by simp
  from t a b c show ?thesis by blast
  qed
qed

end
